theory Spec2Isabelle
  imports Main "HOL-Library.Sublist"
begin

section \<open>Python values used by main.py\<close>

text \<open>
  A Python \<open>str\<close> is a sequence of Unicode code points and \<open>len\<close> counts code
  points, so a string is modelled as a list of code points. \<open>lit\<close> turns an ASCII
  literal into such a list; the accented letters of the French messages are written as
  their code points (233 is e-acute, 232 is e-grave).
\<close>

type_synonym pystr = "nat list"

definition lit :: "string \<Rightarrow> pystr" where
  "lit s = map of_char s"

text \<open>
  An exception value: its class name and the text \<open>str(e)\<close> gives. main.py only ever
  reads \<open>str(e)\<close>.
\<close>

datatype exn = Exn (exn_class: string) (py_str: pystr)

text \<open>\<open>str.isspace\<close> of one code point (the white space table of CPython 3).\<close>

definition py_isspace :: "nat \<Rightarrow> bool" where
  "py_isspace c =
     (c \<in> {9, 10, 11, 12, 13, 28, 29, 30, 31, 32, 133, 160, 5760,
            8232, 8233, 8239, 8287, 12288}
      \<or> (8192 \<le> c \<and> c \<le> 8202))"

text \<open>\<open>s.strip()\<close>: leading and trailing white space removed.\<close>

definition py_strip :: "pystr \<Rightarrow> pystr" where
  "py_strip s = rev (dropWhile py_isspace (rev (dropWhile py_isspace s)))"

text \<open>\<open>sub in s\<close> on strings: \<open>sub\<close> occurs in \<open>s\<close> as a contiguous block.\<close>

fun py_in :: "pystr \<Rightarrow> pystr \<Rightarrow> bool" where
  "py_in sub [] = (sub = [])"
| "py_in sub (c # cs) = (prefix sub (c # cs) \<or> py_in sub cs)"

text \<open>\<open>str(n)\<close> of a non-negative integer, as the f-strings of main.py print it.\<close>

fun str_nat :: "nat \<Rightarrow> pystr" where
  "str_nat n = (if n < 10 then [48 + n] else str_nat (n div 10) @ [48 + n mod 10])"

declare str_nat.simps [simp del]

section \<open>The world a pipeline run acts on\<close>

text \<open>
  Every effect of main.py on its collaborators is one event. \<open>Sleep d\<close> is
  \<open>time.sleep(d)\<close> of capture_et_analyse, whose argument is a Python int;
  \<open>ToastPause\<close> is the \<open>time.sleep(0.3)\<close> after each part in notify_toast.
  \<open>ClipboardCopy s\<close> is a \<open>pyperclip.copy(s)\<close> that returned, \<open>Generate k\<close>
  the call of \<open>gemini_model.generate_content\<close> in attempt \<open>k\<close>.
\<close>

datatype event =
    LogInfo pystr
  | LogWarning pystr
  | LogError pystr
  | ToastShow pystr pystr
  | ToastPause
  | Grab
  | Encode
  | Generate nat
  | ClipboardCopy pystr
  | Sleep int

record world =
  clipboard :: pystr
  responses_file :: pystr
  events :: "event list"

definition emit :: "event list \<Rightarrow> world \<Rightarrow> world" where
  "emit es w = w\<lparr>events := events w @ es\<rparr>"

text \<open>
  What the collaborators answer during one run. \<open>None\<close> is a call that returns,
  \<open>Some e\<close> one that raises \<open>e\<close>. The captured bitmap is opaque to main.py (it is
  only handed on), so \<open>grab\<close> and \<open>encode\<close> record only whether the call raised.
  \<open>generate_content env k\<close> is the outcome of attempt \<open>k\<close>: \<open>Inr t\<close> when the call
  returned and \<open>response.text\<close> is \<open>t\<close>, \<open>Inl e\<close> when the call or the read of
  \<open>response.text\<close> raised. Calls of the logger do not raise.
\<close>

record env =
  USE_WINOTIFY :: bool
  toast_show :: "pystr \<Rightarrow> pystr \<Rightarrow> exn option"
  grab :: "exn option"
  encode :: "exn option"
  generate_content :: "nat \<Rightarrow> exn + pystr"
  copy_in_loop :: "nat \<Rightarrow> exn option"
  copy_final :: "exn option"
  strftime :: pystr
  file_append :: "exn option"

section \<open>notify_toast\<close>

definition max_len :: nat where
  "max_len = 300"

text \<open>
  The loop \<open>while text: parts.append(text[:max_len]); text = text[max_len:]\<close>.
\<close>

function split_parts :: "pystr \<Rightarrow> pystr list" where
  "split_parts text =
     (if text = [] then [] else take max_len text # split_parts (drop max_len text))"
  by pat_completeness auto
termination
  by (relation "measure length") (auto simp: max_len_def)

declare split_parts.simps [simp del]

text \<open>The list \<open>parts\<close> that notify_toast builds from \<open>message\<close>.\<close>

definition toast_parts :: "pystr \<Rightarrow> pystr list" where
  "toast_parts message = split_parts (py_strip message)"

text \<open>
  The loop \<open>for idx, part in enumerate(parts)\<close>; \<open>n_parts\<close> is \<open>len(parts)\<close>.
  A toast that cannot be built or shown is logged and the loop goes on.
\<close>

fun show_parts :: "env \<Rightarrow> pystr \<Rightarrow> nat \<Rightarrow> nat \<Rightarrow> pystr list \<Rightarrow> event list" where
  "show_parts env title n_parts idx [] = []"
| "show_parts env title n_parts idx (part # rest) =
     (let t = title @ (if n_parts > 1
                       then lit '' ('' @ str_nat (idx + 1) @ lit ''/'' @ str_nat n_parts @ lit '')''
                       else [])
      in (case toast_show env t part of
            None \<Rightarrow>
              [ToastShow t part,
               LogInfo (lit ''Notification affich'' @ [233] @ lit ''e: '' @ title
                        @ lit '' (part '' @ str_nat (idx + 1) @ lit '')'')]
          | Some e \<Rightarrow> [LogError (lit ''Erreur notification: '' @ py_str e)])
         @ [ToastPause] @ show_parts env title n_parts (idx + 1) rest)"

definition notify_toast :: "env \<Rightarrow> pystr \<Rightarrow> pystr \<Rightarrow> event list" where
  "notify_toast env title message =
     (if \<not> USE_WINOTIFY env
      then [LogInfo (lit ''[Notification] '' @ title @ lit '': '' @ take 256 message)]
      else (let parts = toast_parts message
            in show_parts env title (length parts) 0 parts))"

text \<open>The messages of the toasts shown, in the order of delivery.\<close>

fun shown_msgs :: "event list \<Rightarrow> pystr list" where
  "shown_msgs [] = []"
| "shown_msgs (ToastShow t m # es) = m # shown_msgs es"
| "shown_msgs (e # es) = shown_msgs es"

section \<open>capture_et_analyse\<close>

text \<open>
  capture_et_analyse returns nothing; the model names the way it ended. \<open>Succeeded\<close>
  is the run that reaches the last line, \<open>Failed\<close> one of the three \<open>return\<close>
  statements (lines 102, 133, 138), \<open>Raised e\<close> an exception that leaves the function.
\<close>

datatype outcome = Succeeded | Failed | Raised exn

definition max_retries :: nat where
  "max_retries = 3"

text \<open>The test of line 127 on \<open>err_msg\<close>.\<close>

definition retryable :: "pystr \<Rightarrow> bool" where
  "retryable err_msg = (py_in (lit ''503'') err_msg \<or> py_in (lit ''UNAVAILABLE'') err_msg)"

definition retry_message :: "nat \<Rightarrow> pystr" where
  "retry_message attempt =
     lit ''Serveur occup'' @ [233] @ lit '', retry '' @ str_nat attempt @ lit ''/''
     @ str_nat max_retries @ lit ''...''"

text \<open>
  The \<open>try\<close> block of one attempt (lines 116 to 123): the exception it raised if any,
  the value of \<open>answer\<close> afterwards, and the world. \<open>answer\<close> is assigned before
  \<open>pyperclip.copy\<close> runs, so it keeps the new text when the copy raises.
\<close>

definition try_generate ::
  "env \<Rightarrow> nat \<Rightarrow> pystr option \<Rightarrow> world \<Rightarrow> exn option \<times> pystr option \<times> world" where
  "try_generate env attempt answer w =
     (let w1 = emit [Generate attempt] w
      in case generate_content env attempt of
           Inl e \<Rightarrow> (Some e, answer, w1)
         | Inr t \<Rightarrow>
             (let answer' = py_strip t
              in case copy_in_loop env attempt of
                   Some e \<Rightarrow> (Some e, Some answer', w1)
                 | None \<Rightarrow>
                     (None, Some answer',
                      emit [ClipboardCopy answer',
                            LogInfo (lit ''R'' @ [233] @ lit ''ponse Gemini re'' @ [231]
                                     @ lit ''ue ('' @ str_nat (length answer')
                                     @ lit '' caract'' @ [232] @ lit ''res)'')]
                           (w1\<lparr>clipboard := answer'\<rparr>))))"

text \<open>
  The loop \<open>for attempt in range(1, max_retries + 1)\<close> over the attempts still to
  run. \<open>Fell\<close> is the loop left by \<open>break\<close> or by exhaustion, with the value of
  \<open>answer\<close>; \<open>Returned\<close> is the \<open>return\<close> of line 133.
\<close>

datatype loop_exit = Returned world | Fell "pystr option" world

fun analyse_loop :: "env \<Rightarrow> nat list \<Rightarrow> int \<Rightarrow> pystr option \<Rightarrow> world \<Rightarrow> loop_exit" where
  "analyse_loop env [] delay answer w = Fell answer w"
| "analyse_loop env (attempt # rest) delay answer w =
     (case try_generate env attempt answer w of
        (None, answer', w') \<Rightarrow> Fell answer' w'
      | (Some e, answer', w') \<Rightarrow>
          (let err_msg = py_str e;
               w1 = emit [LogWarning (lit ''Erreur Gemini (tentative '' @ str_nat attempt
                                      @ lit ''): '' @ err_msg)] w'
           in if retryable err_msg
              then analyse_loop env rest (delay * 2) answer'
                     (emit (notify_toast env (lit ''Gemini Scanner'') (retry_message attempt)
                            @ [Sleep delay]) w1)
              else Returned (emit (notify_toast env (lit ''Erreur Gemini'') err_msg) w1)))"

definition msg_no_answer :: pystr where
  "msg_no_answer = lit ''Aucune r'' @ [233] @ lit ''ponse obtenue de Gemini.''"

definition msg_copied :: pystr where
  "msg_copied = lit ''R'' @ [233] @ lit ''ponse copi'' @ [233]
                @ lit ''e dans le presse-papiers.''"

definition capture_et_analyse :: "env \<Rightarrow> world \<Rightarrow> outcome \<times> world" where
  "capture_et_analyse env w =
     (let w1 = emit (LogInfo (lit ''D'' @ [233] @ lit ''but capture_et_analyse'')
                     # notify_toast env (lit ''Gemini Scanner'')
                         (lit ''Analyse en cours (capture auto)...'')) w
      in case grab env of
           Some e \<Rightarrow>
             (Failed,
              emit ([Grab, LogError (lit ''Erreur capture '' @ [233] @ lit ''cran: '' @ py_str e)]
                    @ notify_toast env (lit ''Erreur capture'') (py_str e)) w1)
         | None \<Rightarrow>
             (let w2 = emit [Grab, LogInfo (lit ''Capture '' @ [233] @ lit ''cran r'' @ [233]
                                            @ lit ''ussie'')] w1
              in case encode env of
                   Some e \<Rightarrow> (Raised e, emit [Encode] w2)
                 | None \<Rightarrow>
                     (let w3 = emit [Encode, LogInfo (lit ''Image convertie en m'' @ [233]
                                                      @ lit ''moire'')] w2
                      in case analyse_loop env [1..<max_retries + 1] 2 None w3 of
                           Returned w4 \<Rightarrow> (Failed, w4)
                         | Fell answer w4 \<Rightarrow>
                             (if answer = None \<or> answer = Some [] then
                                (Failed,
                                 emit (notify_toast env (lit ''Erreur'') msg_no_answer
                                       @ [LogError (lit ''Aucune r'' @ [233]
                                            @ lit ''ponse Gemini apr'' @ [232]
                                            @ lit ''s plusieurs tentatives.'')]) w4)
                              else
                                (case copy_final env of
                                   Some e \<Rightarrow> (Raised e, w4)
                                 | None \<Rightarrow>
                                     (Succeeded,
                                      emit ([ClipboardCopy (the answer)]
                                            @ notify_toast env (lit ''Gemini Scanner'') (the answer)
                                            @ [Sleep 2]
                                            @ notify_toast env (lit ''Gemini Scanner'') msg_copied)
                                           (w4\<lparr>clipboard := the answer\<rparr>)))))))"

section \<open>log_gemini_response\<close>

text \<open>
  \<open>strftime env\<close> is what \<open>time.strftime('%Y-%m-%d %H:%M:%S')\<close> returns at the
  call; \<open>file_append env\<close> tells whether opening or writing the file raised, in which
  case the file is left as it was.
\<close>

definition log_gemini_response :: "env \<Rightarrow> pystr \<Rightarrow> world \<Rightarrow> world" where
  "log_gemini_response env response w =
     (case file_append env of
        Some e \<Rightarrow> emit [LogError (lit ''Erreur log r'' @ [233] @ lit ''ponse: '' @ py_str e)] w
      | None \<Rightarrow>
          emit [LogInfo (lit ''R'' @ [233] @ lit ''ponse enregistr'' @ [233]
                         @ lit ''e dans gemini_responses.log'')]
            (w\<lparr>responses_file :=
                 responses_file w @ [10] @ lit ''['' @ strftime env @ lit ''] '' @ response @ [10]\<rparr>))"

section \<open>Observations on a trace\<close>

fun generate_calls :: "event list \<Rightarrow> nat list" where
  "generate_calls [] = []"
| "generate_calls (Generate k # es) = k # generate_calls es"
| "generate_calls (e # es) = generate_calls es"

fun clipboard_writes :: "event list \<Rightarrow> pystr list" where
  "clipboard_writes [] = []"
| "clipboard_writes (ClipboardCopy s # es) = s # clipboard_writes es"
| "clipboard_writes (e # es) = clipboard_writes es"

fun grab_calls :: "event list \<Rightarrow> nat" where
  "grab_calls [] = 0"
| "grab_calls (Grab # es) = Suc (grab_calls es)"
| "grab_calls (e # es) = grab_calls es"

fun sleeps :: "event list \<Rightarrow> int list" where
  "sleeps [] = []"
| "sleeps (Sleep d # es) = d # sleeps es"
| "sleeps (e # es) = sleeps es"

text \<open>
  What the user lives through, in order: \<open>Inl m\<close> is a toast shown with the message
  \<open>m\<close>, \<open>Inr d\<close> a \<open>time.sleep(d)\<close> of capture_et_analyse.
\<close>

fun timeline :: "event list \<Rightarrow> (pystr + int) list" where
  "timeline [] = []"
| "timeline (ToastShow t m # es) = Inl m # timeline es"
| "timeline (Sleep d # es) = Inr d # timeline es"
| "timeline (e # es) = timeline es"

definition msg_in_progress :: pystr where
  "msg_in_progress = lit ''Analyse en cours (capture auto)...''"

text \<open>
  The events a run adds to the trace, and the parts of a trace the statements below
  are written with: the events up to the retry loop when capture and encoding went
  through, one attempt that fails with a retryable error, the attempt that gets an
  answer, the delivery of the answer after the loop, and giving up.
\<close>

definition new_events :: "world \<Rightarrow> world \<Rightarrow> event list" where
  "new_events w w' = drop (length (events w)) (events w')"

definition started :: "env \<Rightarrow> event list" where
  "started env =
     LogInfo (lit ''D'' @ [233] @ lit ''but capture_et_analyse'')
     # notify_toast env (lit ''Gemini Scanner'') (lit ''Analyse en cours (capture auto)...'')
     @ [Grab, LogInfo (lit ''Capture '' @ [233] @ lit ''cran r'' @ [233] @ lit ''ussie''),
        Encode, LogInfo (lit ''Image convertie en m'' @ [233] @ lit ''moire'')]"

definition retry_events :: "env \<Rightarrow> nat \<Rightarrow> exn \<Rightarrow> int \<Rightarrow> event list" where
  "retry_events env attempt e delay =
     [Generate attempt,
      LogWarning (lit ''Erreur Gemini (tentative '' @ str_nat attempt @ lit ''): '' @ py_str e)]
     @ notify_toast env (lit ''Gemini Scanner'') (retry_message attempt)
     @ [Sleep delay]"

definition retries :: "env \<Rightarrow> (nat \<Rightarrow> exn) \<Rightarrow> nat \<Rightarrow> event list" where
  "retries env errs k =
     concat (map (\<lambda>i. retry_events env i (errs i) (2 ^ i)) [1..<k + 1])"

definition answer_events :: "nat \<Rightarrow> pystr \<Rightarrow> event list" where
  "answer_events attempt answer =
     [Generate attempt, ClipboardCopy answer,
      LogInfo (lit ''R'' @ [233] @ lit ''ponse Gemini re'' @ [231] @ lit ''ue (''
               @ str_nat (length answer) @ lit '' caract'' @ [232] @ lit ''res)'')]"

definition delivered :: "env \<Rightarrow> pystr \<Rightarrow> event list" where
  "delivered env answer =
     [ClipboardCopy answer]
     @ notify_toast env (lit ''Gemini Scanner'') answer
     @ [Sleep 2]
     @ notify_toast env (lit ''Gemini Scanner'') msg_copied"

definition gave_up :: "env \<Rightarrow> event list" where
  "gave_up env =
     notify_toast env (lit ''Erreur'') msg_no_answer
     @ [LogError (lit ''Aucune r'' @ [233] @ lit ''ponse Gemini apr'' @ [232]
                  @ lit ''s plusieurs tentatives.'')]"

section \<open>Concrete runs\<close>

definition world0 :: world where
  "world0 = \<lparr>clipboard = [], responses_file = [], events = []\<rparr>"

definition env_paris :: env where
  "env_paris =
     \<lparr>USE_WINOTIFY = True, toast_show = (\<lambda>t m. None), grab = None, encode = None,
      generate_content = (\<lambda>k. Inr (lit ''Paris'')), copy_in_loop = (\<lambda>k. None),
      copy_final = None, strftime = lit ''2025-01-01 12:00:00'', file_append = None\<rparr>"

definition busy :: exn where
  "busy = Exn ''ServiceUnavailable'' (lit ''503 UNAVAILABLE'')"

definition bad_key :: exn where
  "bad_key = Exn ''InvalidArgument'' (lit ''invalid API key'')"

definition no_display :: exn where
  "no_display = Exn ''OSError'' (lit ''screen grab failed'')"

definition bad_image :: exn where
  "bad_image = Exn ''OSError'' (lit ''cannot write mode F as PNG'')"

definition env_capture_fails :: env where
  "env_capture_fails = env_paris\<lparr>grab := Some no_display\<rparr>"

definition env_encode_fails :: env where
  "env_encode_fails = env_paris\<lparr>encode := Some bad_image\<rparr>"

definition env_bad_key :: env where
  "env_bad_key = env_paris\<lparr>generate_content := (\<lambda>k. Inl bad_key)\<rparr>"

definition env_always_busy :: env where
  "env_always_busy = env_paris\<lparr>generate_content := (\<lambda>k. Inl busy)\<rparr>"

definition env_busy2_then_42 :: env where
  "env_busy2_then_42 =
     env_paris\<lparr>generate_content := (\<lambda>k. if k \<le> 2 then Inl busy else Inr (lit ''42''))\<rparr>"

definition env_busy3_then_42 :: env where
  "env_busy3_then_42 =
     env_paris\<lparr>generate_content := (\<lambda>k. if k \<le> 3 then Inl busy else Inr (lit ''42''))\<rparr>"

definition env_blank :: env where
  "env_blank = env_paris\<lparr>generate_content := (\<lambda>k. Inr (lit ''  ''))\<rparr>"

definition env_no_winotify :: env where
  "env_no_winotify = env_paris\<lparr>USE_WINOTIFY := False\<rparr>"

definition msg_long :: pystr where
  "msg_long = replicate 301 97"

definition msg_trailing_space :: pystr where
  "msg_trailing_space = replicate 300 97 @ [32]"

definition long_error :: exn where
  "long_error = Exn ''InvalidArgument'' (replicate 301 120)"

definition empty_error :: exn where
  "empty_error = Exn ''OSError'' []"

definition clipboard_locked :: exn where
  "clipboard_locked = Exn ''PyperclipWindowsException'' (lit ''Error calling OpenClipboard'')"

definition toast_error :: exn where
  "toast_error = Exn ''Exception'' (lit ''toast failed'')"

definition env_long_error :: env where
  "env_long_error = env_paris\<lparr>generate_content := (\<lambda>k. Inl long_error)\<rparr>"

definition env_empty_error :: env where
  "env_empty_error = env_paris\<lparr>generate_content := (\<lambda>k. Inl empty_error)\<rparr>"

definition env_capture_empty_error :: env where
  "env_capture_empty_error = env_paris\<lparr>grab := Some empty_error\<rparr>"

definition env_padded_42 :: env where
  "env_padded_42 = env_paris\<lparr>generate_content := (\<lambda>k. Inr (lit '' 42 ''))\<rparr>"

definition env_copy_in_loop_fails :: env where
  "env_copy_in_loop_fails = env_paris\<lparr>copy_in_loop := (\<lambda>k. Some clipboard_locked)\<rparr>"

definition env_copy_final_fails :: env where
  "env_copy_final_fails = env_paris\<lparr>copy_final := Some clipboard_locked\<rparr>"

definition env_busy2_then_42_no_winotify :: env where
  "env_busy2_then_42_no_winotify = env_busy2_then_42\<lparr>USE_WINOTIFY := False\<rparr>"

definition env_busy2_then_42_toast_fails :: env where
  "env_busy2_then_42_toast_fails =
     env_busy2_then_42\<lparr>toast_show := (\<lambda>t m. Some toast_error)\<rparr>"

text \<open>Two runs in a row with the same answers, the second from the world the first left.\<close>

definition run_paris_once :: "outcome \<times> world" where
  "run_paris_once = capture_et_analyse env_paris world0"

definition run_paris_twice :: "outcome \<times> world" where
  "run_paris_twice = capture_et_analyse env_paris (snd run_paris_once)"

section \<open>Properties of the notifier\<close>

lemma split_parts_concat: "concat (split_parts s) = s"
proof (induction s rule: split_parts.induct)
  case (1 s)
  show ?case
  proof (cases "s = []")
    case True
    then show ?thesis by (simp add: split_parts.simps)
  next
    case False
    have "concat (split_parts s) = take max_len s @ concat (split_parts (drop max_len s))"
      using False by (subst split_parts.simps) simp
    also have "\<dots> = take max_len s @ drop max_len s"
      using "1.IH" [OF False] by simp
    finally show ?thesis by simp
  qed
qed

lemma split_parts_bounds:
  "p \<in> set (split_parts s) \<Longrightarrow> p \<noteq> [] \<and> length p \<le> max_len"
proof (induction s rule: split_parts.induct)
  case (1 s)
  show ?case
  proof (cases "s = []")
    case True
    with "1.prems" show ?thesis by (simp add: split_parts.simps)
  next
    case False
    from "1.prems" False
    have "p = take max_len s \<or> p \<in> set (split_parts (drop max_len s))"
      by (subst (asm) split_parts.simps) simp
    then show ?thesis
    proof
      assume "p = take max_len s"
      with False show ?thesis by (simp add: max_len_def)
    next
      assume "p \<in> set (split_parts (drop max_len s))"
      with "1.IH" [OF False] show ?thesis by simp
    qed
  qed
qed

lemma split_parts_length:
  "length (split_parts s) = (length s + (max_len - 1)) div max_len"
proof (induction s rule: split_parts.induct)
  case (1 s)
  show ?case
  proof (cases "s = []")
    case True
    then show ?thesis by (simp add: split_parts.simps max_len_def)
  next
    case False
    then have pos: "0 < length s" by simp
    have "length (split_parts s) = Suc (length (split_parts (drop max_len s)))"
      using False by (subst split_parts.simps) simp
    also have "\<dots> = Suc ((length s - max_len + (max_len - 1)) div max_len)"
      using "1.IH" [OF False] by simp
    also have "\<dots> = (length s + (max_len - 1)) div max_len"
    proof (cases "max_len \<le> length s")
      case True
      then have "length s + (max_len - 1) = (length s - max_len + (max_len - 1)) + max_len"
        by simp
      then show ?thesis by (simp add: max_len_def)
    next
      case False
      with pos have "length s + (max_len - 1) = (length s - 1) + max_len"
        and "length s - 1 < max_len" and "length s - max_len = 0"
        by (simp_all add: max_len_def)
      then show ?thesis by (simp add: max_len_def)
    qed
    finally show ?thesis .
  qed
qed

lemma shown_msgs_append: "shown_msgs (xs @ ys) = shown_msgs xs @ shown_msgs ys"
  by (induction xs rule: shown_msgs.induct) simp_all

lemma shown_msgs_show_parts:
  "(\<And>t m. toast_show env t m = None) \<Longrightarrow>
   shown_msgs (show_parts env title n_parts idx parts) = parts"
  by (induction parts arbitrary: idx) (simp_all add: Let_def)

section \<open>Properties of the world and of traces\<close>

lemma events_emit [simp]: "events (emit es w) = events w @ es"
  and clipboard_emit [simp]: "clipboard (emit es w) = clipboard w"
  and responses_file_emit [simp]: "responses_file (emit es w) = responses_file w"
  by (simp_all add: emit_def)

lemma emit_emit [simp]: "emit es (emit es' w) = emit (es' @ es) w"
  by (simp add: emit_def)

lemma emit_clipboard [simp]: "emit es (w\<lparr>clipboard := c\<rparr>) = (emit es w)\<lparr>clipboard := c\<rparr>"
  by (simp add: emit_def)

lemma emit_Nil [simp]: "emit [] w = w"
  by (simp add: emit_def)

lemma new_events_emit [simp]: "new_events w (emit es w) = es"
  and new_events_emit_clip [simp]: "new_events w ((emit es w)\<lparr>clipboard := c\<rparr>) = es"
  by (simp_all add: new_events_def)

lemma generate_calls_append [simp]: "generate_calls (xs @ ys) = generate_calls xs @ generate_calls ys"
  by (induction xs rule: generate_calls.induct) simp_all

lemma clipboard_writes_append [simp]:
  "clipboard_writes (xs @ ys) = clipboard_writes xs @ clipboard_writes ys"
  by (induction xs rule: clipboard_writes.induct) simp_all

lemma sleeps_append [simp]: "sleeps (xs @ ys) = sleeps xs @ sleeps ys"
  by (induction xs rule: sleeps.induct) simp_all

lemma grab_calls_append [simp]: "grab_calls (xs @ ys) = grab_calls xs + grab_calls ys"
  by (induction xs rule: grab_calls.induct) simp_all

lemma show_parts_quiet:
  "generate_calls (show_parts env title n idx parts) = []
   \<and> clipboard_writes (show_parts env title n idx parts) = []
   \<and> sleeps (show_parts env title n idx parts) = []
   \<and> grab_calls (show_parts env title n idx parts) = 0"
  by (induction parts arbitrary: idx) (simp_all add: Let_def split: option.splits)

lemma notify_toast_quiet [simp]:
  "generate_calls (notify_toast env title message) = []"
  "clipboard_writes (notify_toast env title message) = []"
  "sleeps (notify_toast env title message) = []"
  "grab_calls (notify_toast env title message) = 0"
  by (simp_all add: notify_toast_def Let_def show_parts_quiet)

lemma trace_parts [simp]:
  "generate_calls (started env) = []" "clipboard_writes (started env) = []"
  "sleeps (started env) = []" "grab_calls (started env) = 1"
  "generate_calls (retry_events env a e d) = [a]" "clipboard_writes (retry_events env a e d) = []"
  "sleeps (retry_events env a e d) = [d]"
  "generate_calls (answer_events a s) = [a]" "clipboard_writes (answer_events a s) = [s]"
  "sleeps (answer_events a s) = []"
  "generate_calls (delivered env s) = []" "clipboard_writes (delivered env s) = [s]"
  "sleeps (delivered env s) = [2]"
  "generate_calls (gave_up env) = []" "clipboard_writes (gave_up env) = []"
  "sleeps (gave_up env) = []"
  by (simp_all add: started_def retry_events_def answer_events_def delivered_def gave_up_def)

lemma clipboard_writes_retry_list:
  "clipboard_writes (concat (map (\<lambda>i. retry_events env i (errs i) (d i)) xs)) = []"
  by (induction xs) simp_all

lemma clipboard_writes_retries [simp]: "clipboard_writes (retries env errs k) = []"
  unfolding retries_def by (rule clipboard_writes_retry_list)

section \<open>Properties of strings\<close>

lemma py_in_sublist: "py_in sub s \<longleftrightarrow> sublist sub s"
  by (induction s) (auto simp: sublist_Cons_right)

lemma py_strip_id:
  "message = [] \<or> (\<not> py_isspace (hd message) \<and> \<not> py_isspace (last message)) \<Longrightarrow>
   py_strip message = message"
proof (cases "message = []")
  case True
  then show ?thesis by (simp add: py_strip_def)
next
  case False
  assume "message = [] \<or> (\<not> py_isspace (hd message) \<and> \<not> py_isspace (last message))"
  with False have h: "\<not> py_isspace (hd message)" and l: "\<not> py_isspace (last message)"
    by simp_all
  from False h have "dropWhile py_isspace message = message"
    by (cases message) simp_all
  moreover from False l have "dropWhile py_isspace (rev message) = rev message"
    by (cases "rev message") (simp_all add: last_rev [symmetric] hd_rev)
  ultimately show ?thesis by (simp add: py_strip_def)
qed

lemma strip_trailing_space: "py_strip msg_trailing_space = replicate 300 97"
  by (simp add: py_strip_def msg_trailing_space_def py_isspace_def dropWhile_replicate)

lemma parts_trailing_space: "toast_parts msg_trailing_space = [replicate 300 97]"
  unfolding toast_parts_def strip_trailing_space
  by (subst split_parts.simps, subst split_parts.simps) (simp add: max_len_def)

lemma retryable_busy: "retryable (py_str busy)"
  by (simp add: retryable_def busy_def lit_def)

lemma strip_literals:
  "py_strip (lit ''Paris'') = lit ''Paris''" "py_strip (lit ''42'') = lit ''42''"
  "py_strip (lit ''  '') = []"
  by (simp_all add: py_strip_def lit_def py_isspace_def)

lemma lit_nonempty: "lit ''Paris'' \<noteq> []" "lit ''42'' \<noteq> []"
  by (simp_all add: lit_def)

section \<open>One step of the retry loop\<close>

text \<open>
  The loop runs over the attempts 1, 2, 3. After \<open>k\<close> attempts that failed with a
  retryable error it is at attempt \<open>k + 1\<close> with the delay \<open>2 * 2 ^ k\<close>.
\<close>

lemma attempts_eq: "[1..<max_retries + 1] = [1, 2, 3]"
  by (simp add: max_retries_def upt_rec)

lemma loop_step_error:
  "generate_content env attempt = Inl e \<Longrightarrow>
   analyse_loop env (attempt # rest) delay answer w =
     (if retryable (py_str e)
      then analyse_loop env rest (delay * 2) answer (emit (retry_events env attempt e delay) w)
      else Returned (emit ([Generate attempt,
              LogWarning (lit ''Erreur Gemini (tentative '' @ str_nat attempt @ lit ''): '' @ py_str e)]
              @ notify_toast env (lit ''Erreur Gemini'') (py_str e)) w))"
  by (simp add: try_generate_def retry_events_def Let_def)

lemma loop_step_answer:
  "generate_content env attempt = Inr t \<Longrightarrow> copy_in_loop env attempt = None \<Longrightarrow>
   analyse_loop env (attempt # rest) delay answer w =
     Fell (Some (py_strip t)) ((emit (answer_events attempt (py_strip t)) w)\<lparr>clipboard := py_strip t\<rparr>)"
  by (simp add: try_generate_def answer_events_def Let_def)

lemma upt_small:
  "[1..<0 + 1] = ([]::nat list)" "[1..<1 + 1] = [1::nat]"
  "[1..<2 + 1] = [1, 2::nat]" "[1..<3 + 1] = [1, 2, 3::nat]"
  by code_simp+

lemma retries_small:
  "retries env errs 0 = []"
  "retries env errs 1 = retry_events env 1 (errs 1) 2"
  "retries env errs 2 = retry_events env 1 (errs 1) 2 @ retry_events env 2 (errs 2) 4"
  "retries env errs 3 = retry_events env 1 (errs 1) 2 @ retry_events env 2 (errs 2) 4
                        @ retry_events env 3 (errs 3) 8"
  unfolding retries_def upt_small by simp_all

lemma drop_small:
  "drop 1 (x # xs) = xs" "drop 2 (x # y # xs) = xs" "drop 3 (x # y # z # xs) = xs"
  by (simp_all add: numeral_2_eq_2 numeral_3_eq_3)

lemma loop_after_retries:
  assumes "k \<le> 3"
    and "\<And>i. 1 \<le> i \<Longrightarrow> i \<le> k \<Longrightarrow>
           generate_content env i = Inl (errs i) \<and> retryable (py_str (errs i))"
  shows "analyse_loop env [1, 2, 3] 2 None w =
           analyse_loop env (drop k [1, 2, 3]) (2 * 2 ^ k) None (emit (retries env errs k) w)"
proof -
  from assms(1) consider "k = 0" | "k = 1" | "k = 2" | "k = 3" by linarith
  then show ?thesis
  proof cases
    case 1
    then show ?thesis by (simp add: retries_small del: analyse_loop.simps)
  next
    case 2
    with assms(2) [of 1] show ?thesis
      by (simp add: retries_small drop_small loop_step_error del: analyse_loop.simps One_nat_def)
  next
    case 3
    with assms(2) [of 1] assms(2) [of 2] show ?thesis
      by (simp add: retries_small drop_small loop_step_error del: analyse_loop.simps One_nat_def)
  next
    case 4
    with assms(2) [of 1] assms(2) [of 2] assms(2) [of 3] show ?thesis
      by (simp add: retries_small drop_small loop_step_error del: analyse_loop.simps One_nat_def)
  qed
qed

lemma drop_attempts:
  "k \<le> 2 \<Longrightarrow> drop k [1, 2, 3::nat] = (k + 1) # drop (k + 1) [1, 2, 3]"
proof -
  assume "k \<le> 2"
  then consider "k = 0" | "k = 1" | "k = 2" by linarith
  then show ?thesis by cases (simp_all add: drop_small)
qed

lemma loop_answer_after_retries:
  assumes "k \<le> 2"
    and "\<And>i. 1 \<le> i \<Longrightarrow> i \<le> k \<Longrightarrow>
           generate_content env i = Inl (errs i) \<and> retryable (py_str (errs i))"
    and "generate_content env (k + 1) = Inr t"
    and "copy_in_loop env (k + 1) = None"
  shows "analyse_loop env [1, 2, 3] 2 None w =
           Fell (Some (py_strip t))
             ((emit (retries env errs k @ answer_events (k + 1) (py_strip t)) w)
                \<lparr>clipboard := py_strip t\<rparr>)"
proof -
  from assms(1) have "k \<le> 3" by simp
  then have "analyse_loop env [1, 2, 3] 2 None w =
      analyse_loop env (drop k [1, 2, 3]) (2 * 2 ^ k) None (emit (retries env errs k) w)"
    using assms(2) by (rule loop_after_retries)
  also have "\<dots> = analyse_loop env ((k + 1) # drop (k + 1) [1, 2, 3]) (2 * 2 ^ k) None
                     (emit (retries env errs k) w)"
    using drop_attempts [OF assms(1)] by simp
  also have "\<dots> = Fell (Some (py_strip t))
             ((emit (answer_events (k + 1) (py_strip t)) (emit (retries env errs k) w))
                \<lparr>clipboard := py_strip t\<rparr>)"
    using assms(3,4) by (rule loop_step_answer)
  finally show ?thesis by simp
qed

section \<open>The whole run\<close>

lemma run_after_start:
  "grab env = None \<Longrightarrow> encode env = None \<Longrightarrow>
   capture_et_analyse env w =
     (case analyse_loop env [1, 2, 3] 2 None (emit (started env) w) of
        Returned w4 \<Rightarrow> (Failed, w4)
      | Fell answer w4 \<Rightarrow>
          (if answer = None \<or> answer = Some [] then (Failed, emit (gave_up env) w4)
           else (case copy_final env of
                   Some e \<Rightarrow> (Raised e, w4)
                 | None \<Rightarrow> (Succeeded, (emit (delivered env (the answer)) w4)
                                          \<lparr>clipboard := the answer\<rparr>))))"
  unfolding capture_et_analyse_def attempts_eq
  by (cases "analyse_loop env [1, 2, 3] 2 None (emit (started env) w)")
     (simp_all add: started_def gave_up_def delivered_def
           Let_def del: analyse_loop.simps split: option.splits)

lemma run_answer:
  assumes "grab env = None" and "encode env = None"
    and "k \<le> 2"
    and "\<And>i. 1 \<le> i \<Longrightarrow> i \<le> k \<Longrightarrow>
           generate_content env i = Inl (errs i) \<and> retryable (py_str (errs i))"
    and "generate_content env (k + 1) = Inr t"
    and "copy_in_loop env (k + 1) = None"
  shows "capture_et_analyse env w =
           (if py_strip t = [] then
              (Failed,
               (emit (started env @ retries env errs k @ answer_events (k + 1) []
                      @ gave_up env) w)\<lparr>clipboard := []\<rparr>)
            else (case copy_final env of
                    Some e \<Rightarrow>
                      (Raised e,
                       (emit (started env @ retries env errs k
                              @ answer_events (k + 1) (py_strip t)) w)
                         \<lparr>clipboard := py_strip t\<rparr>)
                  | None \<Rightarrow>
                      (Succeeded,
                       (emit (started env @ retries env errs k
                              @ answer_events (k + 1) (py_strip t)
                              @ delivered env (py_strip t)) w)\<lparr>clipboard := py_strip t\<rparr>)))"
proof -
  have "analyse_loop env [1, 2, 3] 2 None (emit (started env) w) =
          Fell (Some (py_strip t))
            ((emit (retries env errs k @ answer_events (k + 1) (py_strip t))
               (emit (started env) w))\<lparr>clipboard := py_strip t\<rparr>)"
    using assms(3,4,5,6) by (rule loop_answer_after_retries)
  then show ?thesis
    using assms(1,2)
    by (simp add: run_after_start del: analyse_loop.simps split: option.splits)
qed

lemma run_exhausted:
  assumes "grab env = None" and "encode env = None"
    and "\<And>i. 1 \<le> i \<Longrightarrow> i \<le> 3 \<Longrightarrow>
           generate_content env i = Inl (errs i) \<and> retryable (py_str (errs i))"
  shows "capture_et_analyse env w =
           (Failed,
            emit (started env
                  @ retry_events env 1 (errs 1) 2 @ retry_events env 2 (errs 2) 4
                  @ retry_events env 3 (errs 3) 8
                  @ gave_up env) w)"
proof -
  have "analyse_loop env [1, 2, 3] 2 None (emit (started env) w) =
      analyse_loop env (drop 3 [1, 2, 3]) (2 * 2 ^ 3) None
        (emit (retries env errs 3) (emit (started env) w))"
    using assms(3) by (intro loop_after_retries) simp_all
  then show ?thesis
    using assms(1,2) by (simp add: run_after_start retries_small drop_small)
qed

lemma paris_run:
  "capture_et_analyse env_paris w =
     (Succeeded,
      (emit (started env_paris @ answer_events 1 (lit ''Paris'')
             @ delivered env_paris (lit ''Paris'')) w)\<lparr>clipboard := lit ''Paris''\<rparr>)"
proof -
  have "capture_et_analyse env_paris w =
     (Succeeded,
      (emit (started env_paris @ retries env_paris (\<lambda>i. busy) 0
             @ answer_events (0 + 1) (py_strip (lit ''Paris''))
             @ delivered env_paris (py_strip (lit ''Paris''))) w)
        \<lparr>clipboard := py_strip (lit ''Paris'')\<rparr>)"
    by (subst run_answer [where k = 0 and errs = "\<lambda>i. busy" and t = "lit ''Paris''"])
       (simp_all add: env_paris_def strip_literals lit_nonempty)
  then show ?thesis by (simp add: strip_literals retries_small)
qed

lemma loop_keeps_file:
  "responses_file (case analyse_loop env atts delay answer w of
                     Returned w' \<Rightarrow> w' | Fell a w' \<Rightarrow> w') = responses_file w"
proof (induction atts arbitrary: delay answer w)
  case Nil
  then show ?case by simp
next
  case (Cons attempt rest)
  show ?case
    by (simp add: try_generate_def Let_def Cons.IH split: sum.splits option.splits)
qed

lemma loop_exit_keeps_file:
  "analyse_loop env atts delay answer w = Returned w' \<Longrightarrow> responses_file w' = responses_file w"
  "analyse_loop env atts delay answer w = Fell a w' \<Longrightarrow> responses_file w' = responses_file w"
  using loop_keeps_file [of env atts delay answer w] by simp_all

lemma run_keeps_file:
  "responses_file (snd (capture_et_analyse env w)) = responses_file w"
proof (cases "grab env")
  case (Some e)
  then show ?thesis by (simp add: capture_et_analyse_def)
next
  case None
  note g = this
  show ?thesis
  proof (cases "encode env")
    case (Some e)
    with g show ?thesis by (simp add: capture_et_analyse_def)
  next
    case None
    show ?thesis
    proof (cases "analyse_loop env [1, 2, 3] 2 None (emit (started env) w)")
      case (Returned w4)
      from loop_exit_keeps_file(1) [OF this] show ?thesis
        unfolding run_after_start [OF g None] Returned by simp
    next
      case (Fell answer w4)
      from loop_exit_keeps_file(2) [OF this] show ?thesis
        unfolding run_after_start [OF g None] Fell by (simp split: option.splits)
    qed
  qed
qed

section \<open>What the notifier shows\<close>

lemma timeline_append [simp]: "timeline (xs @ ys) = timeline xs @ timeline ys"
  by (induction xs rule: timeline.induct) simp_all

lemma timeline_show_parts:
  "(\<And>t m. toast_show env t m = None) \<Longrightarrow>
   timeline (show_parts env title n idx parts) = map Inl parts"
  by (induction parts arbitrary: idx) (simp_all add: Let_def)

lemma timeline_notify:
  "USE_WINOTIFY env \<Longrightarrow> (\<And>t m. toast_show env t m = None) \<Longrightarrow>
   timeline (notify_toast env title message) = map Inl (toast_parts message)"
  by (simp add: notify_toast_def Let_def timeline_show_parts)

lemma shown_notify:
  "USE_WINOTIFY env \<Longrightarrow> (\<And>t m. toast_show env t m = None) \<Longrightarrow>
   shown_msgs (notify_toast env title message) = toast_parts message"
  by (simp add: notify_toast_def Let_def shown_msgs_show_parts)

lemma notify_fallback:
  "\<not> USE_WINOTIFY env \<Longrightarrow>
   notify_toast env title message =
     [LogInfo (lit ''[Notification] '' @ title @ lit '': '' @ take 256 message)]"
  by (simp add: notify_toast_def)

lemma timeline_show_parts_failing:
  "(\<And>t m. toast_show env t m \<noteq> None) \<Longrightarrow>
   timeline (show_parts env title n idx parts) = []"
  by (induction parts arbitrary: idx) (auto simp: Let_def split: option.splits)

lemma timeline_notify_failing:
  "(\<And>t m. toast_show env t m \<noteq> None) \<Longrightarrow> timeline (notify_toast env title message) = []"
  by (simp add: notify_toast_def Let_def timeline_show_parts_failing)

lemma last_dropWhile: "dropWhile P xs \<noteq> [] \<Longrightarrow> last (dropWhile P xs) = last xs"
  by (induction xs) (auto split: if_splits)

lemma py_strip_ends:
  "py_strip s \<noteq> [] \<Longrightarrow> \<not> py_isspace (hd (py_strip s)) \<and> \<not> py_isspace (last (py_strip s))"
proof -
  let ?a = "dropWhile py_isspace s"
  let ?b = "dropWhile py_isspace (rev ?a)"
  assume "py_strip s \<noteq> []"
  then have b: "?b \<noteq> []" by (simp add: py_strip_def)
  have a: "?a \<noteq> []"
  proof
    assume e: "?a = []"
    have "?b = []" unfolding e by simp
    with b show False by simp
  qed
  from b have "\<not> py_isspace (hd ?b)" by (rule hd_dropWhile)
  with b have l: "\<not> py_isspace (last (rev ?b))" by (simp add: last_rev)
  from b have "last ?b = last (rev ?a)" by (rule last_dropWhile)
  also from a have "\<dots> = hd ?a" by (simp add: last_rev)
  finally have "hd (rev ?b) = hd ?a" using b by (simp add: hd_rev)
  moreover from a have "\<not> py_isspace (hd ?a)" by (rule hd_dropWhile)
  ultimately have "\<not> py_isspace (hd (rev ?b))" by simp
  with l show ?thesis by (simp add: py_strip_def)
qed

lemma py_strip_idem: "py_strip (py_strip s) = py_strip s"
  using py_strip_ends [of s] by (intro py_strip_id) blast

lemma toast_parts_stripped: "toast_parts (py_strip s) = split_parts (py_strip s)"
  by (simp add: toast_parts_def py_strip_idem)

lemma toast_parts_concat: "concat (toast_parts s) = py_strip s"
  by (simp add: toast_parts_def split_parts_concat)

lemma toast_parts_single:
  assumes "m \<noteq> []" and "length m \<le> 300"
    and "\<not> py_isspace (hd m)" and "\<not> py_isspace (last m)"
  shows "toast_parts m = [m]"
proof -
  from assms(3,4) have "py_strip m = m" by (intro py_strip_id) simp
  moreover from assms(1,2) have "split_parts m = [m]"
    by (subst split_parts.simps, subst split_parts.simps) (simp add: max_len_def)
  ultimately show ?thesis by (simp add: toast_parts_def)
qed

lemma toast_parts_nonempty: "py_strip s \<noteq> [] \<Longrightarrow> toast_parts s \<noteq> []"
  using toast_parts_concat [of s] by auto

lemma fixed_message_parts:
  "toast_parts msg_in_progress = [msg_in_progress]"
  "toast_parts msg_no_answer = [msg_no_answer]"
  "toast_parts msg_copied = [msg_copied]"
  "toast_parts (retry_message 1) = [retry_message 1]"
  "toast_parts (retry_message 2) = [retry_message 2]"
  "toast_parts (retry_message 3) = [retry_message 3]"
  by (rule toast_parts_single;
      simp add: msg_in_progress_def msg_no_answer_def msg_copied_def retry_message_def
        max_retries_def lit_def str_nat.simps py_isspace_def)+

lemma fixed_message_short:
  "take 256 msg_in_progress = msg_in_progress"
  "take 256 msg_no_answer = msg_no_answer"
  "take 256 msg_copied = msg_copied"
  "take 256 (retry_message 1) = retry_message 1"
  "take 256 (retry_message 2) = retry_message 2"
  "take 256 (retry_message 3) = retry_message 3"
  by (simp_all add: msg_in_progress_def msg_no_answer_def msg_copied_def retry_message_def
        max_retries_def lit_def str_nat.simps)

lemma retry_message_text:
  "retry_message 1 = lit ''Serveur occup'' @ [233] @ lit '', retry 1/3...''"
  "retry_message 2 = lit ''Serveur occup'' @ [233] @ lit '', retry 2/3...''"
  "retry_message 3 = lit ''Serveur occup'' @ [233] @ lit '', retry 3/3...''"
  by (simp_all add: retry_message_def max_retries_def lit_def str_nat.simps)

lemma timeline_parts:
  assumes "USE_WINOTIFY env" and "\<And>t m. toast_show env t m = None"
  shows "timeline (started env) = [Inl msg_in_progress]"
    and "timeline (retry_events env a e d) = map Inl (toast_parts (retry_message a)) @ [Inr d]"
    and "timeline (answer_events a s) = []"
    and "timeline (delivered env s) = map Inl (toast_parts s) @ [Inr 2, Inl msg_copied]"
    and "timeline (gave_up env) = [Inl msg_no_answer]"
  using assms
  by (simp_all add: started_def retry_events_def answer_events_def delivered_def gave_up_def
        timeline_notify fixed_message_parts msg_in_progress_def [symmetric])

lemma timeline_parts_fallback:
  assumes "\<not> USE_WINOTIFY env"
  shows "timeline (started env) = []"
    and "timeline (retry_events env a e d) = [Inr d]"
    and "timeline (answer_events a s) = []"
    and "timeline (delivered env s) = [Inr 2]"
    and "timeline (gave_up env) = []"
  using assms
  by (simp_all add: started_def retry_events_def answer_events_def delivered_def gave_up_def
        notify_fallback)

lemma timeline_parts_failing:
  assumes "\<And>t m. toast_show env t m \<noteq> None"
  shows "timeline (started env) = []"
    and "timeline (retry_events env a e d) = [Inr d]"
    and "timeline (delivered env s) = [Inr 2]"
    and "timeline (gave_up env) = []"
  using assms
  by (simp_all add: started_def retry_events_def delivered_def gave_up_def
        timeline_notify_failing)

lemma loop_step_copy_error:
  "generate_content env attempt = Inr t \<Longrightarrow> copy_in_loop env attempt = Some e \<Longrightarrow>
   analyse_loop env (attempt # rest) delay answer w =
     (if retryable (py_str e)
      then analyse_loop env rest (delay * 2) (Some (py_strip t))
             (emit (retry_events env attempt e delay) w)
      else Returned (emit ([Generate attempt,
              LogWarning (lit ''Erreur Gemini (tentative '' @ str_nat attempt @ lit ''): '' @ py_str e)]
              @ notify_toast env (lit ''Erreur Gemini'') (py_str e)) w))"
  by (simp add: try_generate_def retry_events_def Let_def)

lemma notify_single:
  assumes "USE_WINOTIFY env" and "\<And>t m. toast_show env t m = None"
    and "toast_parts m = [m]"
  shows "notify_toast env title m =
           [ToastShow title m,
            LogInfo (lit ''Notification affich'' @ [233] @ lit ''e: '' @ title @ lit '' (part 1)''),
            ToastPause]"
  using assms by (simp add: notify_toast_def lit_def str_nat.simps)

lemma timeline_retries:
  assumes "USE_WINOTIFY env" and "\<And>t m. toast_show env t m = None" and "k \<le> 3"
  shows "timeline (retries env errs k) =
           concat (map (\<lambda>i. [Inl (retry_message i), Inr (2 ^ i)]) [1..<k + 1])"
proof -
  from assms(3) consider "k = 0" | "k = 1" | "k = 2" | "k = 3" by linarith
  then show ?thesis
  proof cases
    case 1
    show ?thesis unfolding 1 retries_small upt_small by simp
  next
    case 2
    show ?thesis unfolding 2 retries_small upt_small
      by (simp add: timeline_parts [OF assms(1,2)] fixed_message_parts del: One_nat_def)
  next
    case 3
    show ?thesis unfolding 3 retries_small upt_small
      by (simp add: timeline_parts [OF assms(1,2)] fixed_message_parts del: One_nat_def)
  next
    case 4
    show ?thesis unfolding 4 retries_small upt_small
      by (simp add: timeline_parts [OF assms(1,2)] fixed_message_parts del: One_nat_def)
  qed
qed

lemma not_retryable_replicate: "\<not> retryable (replicate n 120)"
proof
  assume "retryable (replicate n 120)"
  then have "sublist (lit ''503'') (replicate n 120) \<or> sublist (lit ''UNAVAILABLE'') (replicate n 120)"
    by (simp add: retryable_def py_in_sublist)
  then have "set (lit ''503'') \<subseteq> set (replicate n 120)
             \<or> set (lit ''UNAVAILABLE'') \<subseteq> set (replicate n 120)"
    using set_mono_sublist by blast
  then show False by (auto simp: lit_def split: if_splits)
qed

lemma not_retryable_empty: "\<not> retryable []"
  by (simp add: retryable_def lit_def)

lemma parts_long_error: "toast_parts (replicate 301 120) = [replicate 300 120, [120]]"
proof -
  have "py_strip (replicate 301 120) = replicate 301 120"
    by (rule py_strip_id) (simp add: py_isspace_def)
  moreover have "split_parts (replicate 301 120) = [replicate 300 120, [120]]"
    by (subst split_parts.simps, subst split_parts.simps, subst split_parts.simps)
       (simp add: max_len_def)
  ultimately show ?thesis by (simp add: toast_parts_def)
qed

lemma parts_empty: "toast_parts [] = []"
  by (simp add: toast_parts_def py_strip_def split_parts.simps)

lemma new_events_world0: "new_events world0 w = events w"
  by (simp add: new_events_def world0_def)

lemma run_permanent:
  assumes "grab env = None" and "encode env = None"
    and "generate_content env 1 = Inl e" and "\<not> retryable (py_str e)"
  shows "capture_et_analyse env w =
           (Failed,
            emit (started env
                  @ [Generate 1,
                     LogWarning (lit ''Erreur Gemini (tentative '' @ str_nat 1 @ lit ''): ''
                                 @ py_str e)]
                  @ notify_toast env (lit ''Erreur Gemini'') (py_str e)) w)"
  using assms by (simp add: run_after_start loop_step_error del: analyse_loop.simps One_nat_def)

lemma run_capture_fails:
  assumes "grab env = Some e"
  shows "capture_et_analyse env w =
           (Failed,
            emit (LogInfo (lit ''D'' @ [233] @ lit ''but capture_et_analyse'')
                  # notify_toast env (lit ''Gemini Scanner'')
                      (lit ''Analyse en cours (capture auto)...'')
                  @ [Grab, LogError (lit ''Erreur capture '' @ [233] @ lit ''cran: '' @ py_str e)]
                  @ notify_toast env (lit ''Erreur capture'') (py_str e)) w)"
  using assms by (simp add: capture_et_analyse_def)

lemma toast_parts_facts:
  "concat (toast_parts s) = py_strip s"
  "length (toast_parts s) = (length (py_strip s) + 299) div 300"
  "\<forall>p \<in> set (toast_parts s). p \<noteq> [] \<and> length p \<le> 300"
  using split_parts_bounds [of _ "py_strip s"] split_parts_length [of "py_strip s"]
  by (simp_all add: toast_parts_def split_parts_concat max_len_def)

section \<open>The claims\<close>

subsection \<open>Response log\<close>

text \<open>
  C1. The claim: every pipeline run in which the analyzer returns an answer appends
  the answer to gemini_responses.log as one timestamped block, so that two successful
  runs leave two blocks. log_gemini_response (lines 153 to 159) writes such a block,
  but capture_et_analyse never calls it. Evaluated on two successful runs in a row
  from an empty world (the analyzer answers "Paris" at the first attempt): both runs
  succeed, the clipboard is written four times and holds "Paris", and the response
  log is still empty after each run.
\<close>

theorem response_log_untouched_by_runs:
  "fst run_paris_once = Succeeded \<and> fst run_paris_twice = Succeeded
   \<and> clipboard (snd run_paris_twice) = lit ''Paris''
   \<and> clipboard_writes (events (snd run_paris_twice))
       = [lit ''Paris'', lit ''Paris'', lit ''Paris'', lit ''Paris'']
   \<and> responses_file (snd run_paris_once) = []
   \<and> responses_file (snd run_paris_twice) = []"
  by (simp add: run_paris_once_def run_paris_twice_def paris_run world0_def)

subsection \<open>Notifier\<close>

text \<open>
  C2, as the claim states it, fails: a message of 300 letters followed by one space is
  301 characters long, and the notifier shows it as a single part of 300 characters,
  which is not the message and not ceil(301 / 300) = 2 parts; and when winotify is
  missing nothing is split or shown at all.
\<close>

theorem notifier_chunks_counterexample:
  "300 < length msg_trailing_space
   \<and> shown_msgs (notify_toast env_paris (lit ''Gemini Scanner'') msg_trailing_space)
       = [replicate 300 97]
   \<and> concat (shown_msgs (notify_toast env_paris (lit ''Gemini Scanner'') msg_trailing_space))
       \<noteq> msg_trailing_space
   \<and> length (shown_msgs (notify_toast env_paris (lit ''Gemini Scanner'') msg_trailing_space))
       \<noteq> (length msg_trailing_space + 299) div 300
   \<and> shown_msgs (notify_toast env_no_winotify (lit ''Gemini Scanner'') msg_trailing_space) = []"
proof -
  have a: "shown_msgs (notify_toast env_paris (lit ''Gemini Scanner'') msg_trailing_space)
       = [replicate 300 97]"
    by (simp add: notify_toast_def parts_trailing_space env_paris_def)
  have b: "length msg_trailing_space = 301"
    by (simp add: msg_trailing_space_def)
  have c: "shown_msgs (notify_toast env_no_winotify (lit ''Gemini Scanner'') msg_trailing_space) = []"
    by (simp add: notify_toast_def env_no_winotify_def env_paris_def)
  have d: "replicate 300 (97::nat) \<noteq> msg_trailing_space"
  proof
    assume "replicate 300 (97::nat) = msg_trailing_space"
    then have "length (replicate 300 (97::nat)) = length msg_trailing_space" by simp
    with b show False by simp
  qed
  show ?thesis unfolding a c b using d by simp
qed

text \<open>
  C2, amended. notify_toast splits \<open>message.strip()\<close>: the parts are non-empty, each of
  at most 300 characters, there are ceil(len(message.strip()) / 300) of them, and in
  order they make up \<open>message.strip()\<close>, which is the message itself when the message
  neither starts nor ends with white space. When winotify is available and every toast
  can be shown, the messages of the toasts shown are these parts in order. When
  winotify is not available nothing is split: the call writes one log line with the
  title and the first 256 characters of the message, and nothing else.
\<close>

theorem notifier_chunks_of_stripped_message:
  "concat (toast_parts message) = py_strip message
   \<and> (\<forall>p \<in> set (toast_parts message). p \<noteq> [] \<and> length p \<le> 300)
   \<and> length (toast_parts message) = (length (py_strip message) + 299) div 300
   \<and> (USE_WINOTIFY env \<and> (\<forall>t m. toast_show env t m = None) \<longrightarrow>
        shown_msgs (notify_toast env title message) = toast_parts message)
   \<and> (message = [] \<or> (\<not> py_isspace (hd message) \<and> \<not> py_isspace (last message)) \<longrightarrow>
        py_strip message = message)
   \<and> (\<not> USE_WINOTIFY env \<longrightarrow>
        notify_toast env title message =
          [LogInfo (lit ''[Notification] '' @ title @ lit '': '' @ take 256 message)])"
proof (intro conjI)
  show "concat (toast_parts message) = py_strip message"
    by (simp add: toast_parts_def split_parts_concat)
  show "\<forall>p \<in> set (toast_parts message). p \<noteq> [] \<and> length p \<le> 300"
    using split_parts_bounds [of _ "py_strip message"] by (simp add: toast_parts_def max_len_def)
  show "length (toast_parts message) = (length (py_strip message) + 299) div 300"
    using split_parts_length [of "py_strip message"] by (simp add: toast_parts_def max_len_def)
  show "USE_WINOTIFY env \<and> (\<forall>t m. toast_show env t m = None) \<longrightarrow>
        shown_msgs (notify_toast env title message) = toast_parts message"
    by (simp add: notify_toast_def Let_def shown_msgs_show_parts)
  show "message = [] \<or> (\<not> py_isspace (hd message) \<and> \<not> py_isspace (last message)) \<longrightarrow>
        py_strip message = message"
    using py_strip_id by blast
  show "\<not> USE_WINOTIFY env \<longrightarrow>
        notify_toast env title message =
          [LogInfo (lit ''[Notification] '' @ title @ lit '': '' @ take 256 message)]"
    by (simp add: notify_toast_def)
qed

theorem notifier_chunks_of_stripped_message_witness:
  "300 < length msg_long
   \<and> concat (toast_parts msg_long) = msg_long
   \<and> length (toast_parts msg_long) = 2
   \<and> shown_msgs (notify_toast env_paris (lit ''Gemini Scanner'') msg_long) = toast_parts msg_long
   \<and> notify_toast env_no_winotify (lit ''Gemini Scanner'') msg_long
       = [LogInfo (lit ''[Notification] Gemini Scanner: '' @ replicate 256 97)]"
proof -
  have ends: "\<not> py_isspace (hd msg_long) \<and> \<not> py_isspace (last msg_long)"
    by (simp add: msg_long_def py_isspace_def)
  have env: "USE_WINOTIFY env_paris \<and> (\<forall>t m. toast_show env_paris t m = None)"
    by (simp add: env_paris_def)
  have off: "\<not> USE_WINOTIFY env_no_winotify"
    by (simp add: env_no_winotify_def)
  have len: "length msg_long = 301"
    by (simp add: msg_long_def)
  have cut: "take 256 msg_long = replicate 256 97"
    by (simp add: msg_long_def)
  from notifier_chunks_of_stripped_message [of msg_long env_paris "lit ''Gemini Scanner''"]
    ends env
  have "py_strip msg_long = msg_long"
    and "concat (toast_parts msg_long) = py_strip msg_long"
    and "length (toast_parts msg_long) = (length (py_strip msg_long) + 299) div 300"
    and "shown_msgs (notify_toast env_paris (lit ''Gemini Scanner'') msg_long)
           = toast_parts msg_long"
    by simp_all
  moreover
  from notifier_chunks_of_stripped_message [of msg_long env_no_winotify "lit ''Gemini Scanner''"]
    off
  have "notify_toast env_no_winotify (lit ''Gemini Scanner'') msg_long
          = [LogInfo (lit ''[Notification] '' @ lit ''Gemini Scanner'' @ lit '': ''
                      @ take 256 msg_long)]"
    by simp
  ultimately show ?thesis using len cut by (simp add: lit_def)
qed

subsection \<open>Retries followed by an answer\<close>

text \<open>
  C3, as the claim states it, fails in each of these runs. Three retryable errors
  followed by a success: the loop makes three attempts in all, the fourth answer is
  never asked for, the run ends Failed and the clipboard is never written. An answer
  " 42 " at the first attempt: the clipboard ends with "42", not with the answer as
  returned. A blank answer: the run ends Failed. A clipboard that cannot be written:
  the run ends Failed when the write inside the loop raises, and the exception leaves
  the function when the write after the loop raises. Two retryable errors and the
  answer "42" without winotify, or with toasts that cannot be shown: the run ends
  Succeeded and no toast was shown, the user saw only the sleeps of 2, 4 and 2.
\<close>

theorem three_retries_then_answer_counterexample:
  "generate_content env_busy3_then_42 1 = Inl busy
   \<and> generate_content env_busy3_then_42 2 = Inl busy
   \<and> generate_content env_busy3_then_42 3 = Inl busy
   \<and> generate_content env_busy3_then_42 4 = Inr (lit ''42'')
   \<and> retryable (py_str busy)
   \<and> fst (capture_et_analyse env_busy3_then_42 world0) = Failed
   \<and> clipboard (snd (capture_et_analyse env_busy3_then_42 world0)) \<noteq> lit ''42''
   \<and> clipboard_writes (events (snd (capture_et_analyse env_busy3_then_42 world0))) = []
   \<and> generate_calls (events (snd (capture_et_analyse env_busy3_then_42 world0))) = [1, 2, 3]
   \<and> generate_content env_padded_42 1 = Inr (lit '' 42 '')
   \<and> fst (capture_et_analyse env_padded_42 world0) = Succeeded
   \<and> clipboard (snd (capture_et_analyse env_padded_42 world0)) = lit ''42''
   \<and> lit ''42'' \<noteq> lit '' 42 ''
   \<and> fst (capture_et_analyse env_blank world0) = Failed
   \<and> fst (capture_et_analyse env_copy_in_loop_fails world0) = Failed
   \<and> clipboard_writes (events (snd (capture_et_analyse env_copy_in_loop_fails world0))) = []
   \<and> fst (capture_et_analyse env_copy_final_fails world0) = Raised clipboard_locked
   \<and> fst (capture_et_analyse env_busy2_then_42_no_winotify world0) = Succeeded
   \<and> timeline (events (snd (capture_et_analyse env_busy2_then_42_no_winotify world0)))
       = [Inr 2, Inr 4, Inr 2]
   \<and> fst (capture_et_analyse env_busy2_then_42_toast_fails world0) = Succeeded
   \<and> timeline (events (snd (capture_et_analyse env_busy2_then_42_toast_fails world0)))
       = [Inr 2, Inr 4, Inr 2]"
proof -
  have run3: "capture_et_analyse env_busy3_then_42 world0 =
           (Failed,
            emit (started env_busy3_then_42
                  @ retry_events env_busy3_then_42 1 busy 2
                  @ retry_events env_busy3_then_42 2 busy 4
                  @ retry_events env_busy3_then_42 3 busy 8
                  @ gave_up env_busy3_then_42) world0)"
    by (rule run_exhausted [where errs = "\<lambda>i. busy"])
       (simp_all add: env_busy3_then_42_def env_paris_def retryable_busy)
  have gen: "generate_content env_busy3_then_42 1 = Inl busy"
    "generate_content env_busy3_then_42 2 = Inl busy"
    "generate_content env_busy3_then_42 3 = Inl busy"
    "generate_content env_busy3_then_42 4 = Inr (lit ''42'')"
    "generate_content env_padded_42 1 = Inr (lit '' 42 '')"
    by (simp_all add: env_busy3_then_42_def env_padded_42_def)
  have clip: "clipboard world0 \<noteq> lit ''42''"
    by (simp add: world0_def lit_def)
  have ev: "events world0 = []"
    by (simp add: world0_def)
  have three: "fst (capture_et_analyse env_busy3_then_42 world0) = Failed
     \<and> clipboard (snd (capture_et_analyse env_busy3_then_42 world0)) \<noteq> lit ''42''
     \<and> clipboard_writes (events (snd (capture_et_analyse env_busy3_then_42 world0))) = []
     \<and> generate_calls (events (snd (capture_et_analyse env_busy3_then_42 world0))) = [1, 2, 3]"
    unfolding run3 using clip ev by simp
  have strip: "py_strip (lit '' 42 '') = lit ''42''" "lit ''42'' \<noteq> lit '' 42 ''"
    by (simp_all add: py_strip_def lit_def py_isspace_def)
  have "capture_et_analyse env_padded_42 world0 =
      (Succeeded,
       (emit (started env_padded_42 @ retries env_padded_42 (\<lambda>i. busy) 0
              @ answer_events (0 + 1) (py_strip (lit '' 42 ''))
              @ delivered env_padded_42 (py_strip (lit '' 42 ''))) world0)
         \<lparr>clipboard := py_strip (lit '' 42 '')\<rparr>)"
    by (subst run_answer [where k = 0 and errs = "\<lambda>i. busy" and t = "lit '' 42 ''"])
       (simp_all add: env_padded_42_def env_paris_def strip lit_nonempty)
  then have padded: "fst (capture_et_analyse env_padded_42 world0) = Succeeded
     \<and> clipboard (snd (capture_et_analyse env_padded_42 world0)) = lit ''42''"
    by (simp add: strip)
  have "capture_et_analyse env_blank world0 =
      (Failed,
       (emit (started env_blank @ retries env_blank (\<lambda>i. busy) 0 @ answer_events (0 + 1) []
              @ gave_up env_blank) world0)\<lparr>clipboard := []\<rparr>)"
    by (subst run_answer [where k = 0 and errs = "\<lambda>i. busy" and t = "lit ''  ''"])
       (simp_all add: env_blank_def env_paris_def strip_literals)
  then have blank: "fst (capture_et_analyse env_blank world0) = Failed"
    by simp
  have locked: "\<not> retryable (py_str clipboard_locked)"
    by (simp add: retryable_def clipboard_locked_def lit_def)
  have "analyse_loop env_copy_in_loop_fails [1, 2, 3] 2 None
          (emit (started env_copy_in_loop_fails) world0) =
        Returned (emit ([Generate 1,
              LogWarning (lit ''Erreur Gemini (tentative '' @ str_nat 1 @ lit ''): ''
                          @ py_str clipboard_locked)]
              @ notify_toast env_copy_in_loop_fails (lit ''Erreur Gemini'')
                  (py_str clipboard_locked))
            (emit (started env_copy_in_loop_fails) world0))"
    using locked
    by (subst loop_step_copy_error [where t = "lit ''Paris''" and e = clipboard_locked])
       (simp_all add: env_copy_in_loop_fails_def env_paris_def)
  then have in_loop: "fst (capture_et_analyse env_copy_in_loop_fails world0) = Failed
     \<and> clipboard_writes (events (snd (capture_et_analyse env_copy_in_loop_fails world0))) = []"
    using ev
    by (subst (1 2) run_after_start)
       (simp_all add: env_copy_in_loop_fails_def env_paris_def del: analyse_loop.simps)
  have "capture_et_analyse env_copy_final_fails world0 =
      (Raised clipboard_locked,
       (emit (started env_copy_final_fails @ retries env_copy_final_fails (\<lambda>i. busy) 0
              @ answer_events (0 + 1) (py_strip (lit ''Paris''))) world0)
         \<lparr>clipboard := py_strip (lit ''Paris'')\<rparr>)"
    by (subst run_answer [where k = 0 and errs = "\<lambda>i. busy" and t = "lit ''Paris''"])
       (simp_all add: env_copy_final_fails_def env_paris_def strip_literals lit_nonempty)
  then have final: "fst (capture_et_analyse env_copy_final_fails world0)
      = Raised clipboard_locked"
    by simp
  have off: "\<not> USE_WINOTIFY env_busy2_then_42_no_winotify"
    by (simp add: env_busy2_then_42_no_winotify_def)
  have "capture_et_analyse env_busy2_then_42_no_winotify world0 =
      (Succeeded,
       (emit (started env_busy2_then_42_no_winotify
              @ retries env_busy2_then_42_no_winotify (\<lambda>i. busy) 2
              @ answer_events (2 + 1) (py_strip (lit ''42''))
              @ delivered env_busy2_then_42_no_winotify (py_strip (lit ''42''))) world0)
         \<lparr>clipboard := py_strip (lit ''42'')\<rparr>)"
    by (subst run_answer [where k = 2 and errs = "\<lambda>i. busy" and t = "lit ''42''"])
       (simp_all add: env_busy2_then_42_no_winotify_def env_busy2_then_42_def env_paris_def
          retryable_busy strip_literals lit_nonempty)
  then have silent: "fst (capture_et_analyse env_busy2_then_42_no_winotify world0) = Succeeded
     \<and> timeline (events (snd (capture_et_analyse env_busy2_then_42_no_winotify world0)))
         = [Inr 2, Inr 4, Inr 2]"
    using ev by (simp add: retries_small timeline_parts_fallback [OF off])
  have failing: "\<And>t m. toast_show env_busy2_then_42_toast_fails t m \<noteq> None"
    by (simp add: env_busy2_then_42_toast_fails_def)
  have "capture_et_analyse env_busy2_then_42_toast_fails world0 =
      (Succeeded,
       (emit (started env_busy2_then_42_toast_fails
              @ retries env_busy2_then_42_toast_fails (\<lambda>i. busy) 2
              @ answer_events (2 + 1) (py_strip (lit ''42''))
              @ delivered env_busy2_then_42_toast_fails (py_strip (lit ''42''))) world0)
         \<lparr>clipboard := py_strip (lit ''42'')\<rparr>)"
    by (subst run_answer [where k = 2 and errs = "\<lambda>i. busy" and t = "lit ''42''"])
       (simp_all add: env_busy2_then_42_toast_fails_def env_busy2_then_42_def env_paris_def
          retryable_busy strip_literals lit_nonempty)
  then have undelivered:
    "fst (capture_et_analyse env_busy2_then_42_toast_fails world0) = Succeeded
     \<and> timeline (events (snd (capture_et_analyse env_busy2_then_42_toast_fails world0)))
         = [Inr 2, Inr 4, Inr 2]"
    using ev
    by (simp add: retries_small timeline_parts_failing [OF failing] answer_events_def)
  from gen retryable_busy three padded strip(2) blank in_loop final silent undelivered
  show ?thesis by blast
qed

text \<open>
  C3, amended. When capture and encoding go through, the first \<open>k\<close> attempts fail with
  a retryable error for some \<open>k\<close> of at most 2, attempt \<open>k + 1\<close> returns a text that is
  not empty once stripped, and both clipboard writes go through, the run ends Succeeded
  with the stripped text in the clipboard. When moreover winotify is available and
  every toast can be shown, what the user lives through is: the toast "Analyse en
  cours", for each failed attempt its retry toast and its sleep, then the whole
  stripped answer in toasts of at most 300 characters each (at least one), a sleep of
  2, and the toast that the answer was copied to the clipboard.
\<close>

theorem retries_then_answer_succeeds:
  assumes "grab env = None" and "encode env = None"
    and "k \<le> 2"
    and "\<forall>i. 1 \<le> i \<and> i \<le> k \<longrightarrow>
           generate_content env i = Inl (errs i) \<and> retryable (py_str (errs i))"
    and "generate_content env (k + 1) = Inr t"
    and "py_strip t \<noteq> []"
    and "copy_in_loop env (k + 1) = None" and "copy_final env = None"
  shows "capture_et_analyse env w =
           (Succeeded,
            (emit (started env @ retries env errs k @ answer_events (k + 1) (py_strip t)
                   @ [ClipboardCopy (py_strip t)]
                   @ notify_toast env (lit ''Gemini Scanner'') (py_strip t)
                   @ [Sleep 2]
                   @ notify_toast env (lit ''Gemini Scanner'') msg_copied) w)
              \<lparr>clipboard := py_strip t\<rparr>)
         \<and> clipboard (snd (capture_et_analyse env w)) = py_strip t
         \<and> (USE_WINOTIFY env \<and> (\<forall>t m. toast_show env t m = None) \<longrightarrow>
              timeline (new_events w (snd (capture_et_analyse env w)))
                = Inl msg_in_progress
                  # concat (map (\<lambda>i. [Inl (retry_message i), Inr (2 ^ i)]) [1..<k + 1])
                  @ map Inl (toast_parts (py_strip t))
                  @ [Inr 2, Inl msg_copied])
         \<and> concat (toast_parts (py_strip t)) = py_strip t
         \<and> toast_parts (py_strip t) \<noteq> []
         \<and> (\<forall>p \<in> set (toast_parts (py_strip t)). length p \<le> 300)"
proof -
  have run: "capture_et_analyse env w =
           (Succeeded,
            (emit (started env @ retries env errs k @ answer_events (k + 1) (py_strip t)
                   @ delivered env (py_strip t)) w)\<lparr>clipboard := py_strip t\<rparr>)"
    using assms by (subst run_answer [where k = k and errs = errs and t = t]) simp_all
  have shown: "timeline (new_events w (snd (capture_et_analyse env w)))
                = Inl msg_in_progress
                  # concat (map (\<lambda>i. [Inl (retry_message i), Inr (2 ^ i)]) [1..<k + 1])
                  @ map Inl (toast_parts (py_strip t))
                  @ [Inr 2, Inl msg_copied]"
    if on: "USE_WINOTIFY env" and ok: "\<And>t m. toast_show env t m = None"
  proof -
    from assms(3) have "k \<le> 3" by simp
    from timeline_retries [OF on ok this, of errs] show ?thesis
      unfolding run by (simp add: timeline_parts [OF on ok])
  qed
  have whole: "concat (toast_parts (py_strip t)) = py_strip t"
    by (simp add: toast_parts_concat py_strip_idem)
  have some: "toast_parts (py_strip t) \<noteq> []"
    using assms(6) by (intro toast_parts_nonempty) (simp add: py_strip_idem)
  have small: "\<forall>p \<in> set (toast_parts (py_strip t)). length p \<le> 300"
    using split_parts_bounds [of _ "py_strip (py_strip t)"]
    by (simp add: toast_parts_def max_len_def)
  from run shown whole some small show ?thesis
    by (simp add: delivered_def)
qed

theorem retries_then_answer_succeeds_witness:
  "fst (capture_et_analyse env_busy2_then_42 world0) = Succeeded
   \<and> clipboard (snd (capture_et_analyse env_busy2_then_42 world0)) = lit ''42''
   \<and> generate_calls (events (snd (capture_et_analyse env_busy2_then_42 world0))) = [1, 2, 3]
   \<and> clipboard_writes (events (snd (capture_et_analyse env_busy2_then_42 world0)))
       = [lit ''42'', lit ''42'']
   \<and> timeline (events (snd (capture_et_analyse env_busy2_then_42 world0)))
       = [Inl (lit ''Analyse en cours (capture auto)...''),
          Inl (lit ''Serveur occup'' @ [233] @ lit '', retry 1/3...''), Inr 2,
          Inl (lit ''Serveur occup'' @ [233] @ lit '', retry 2/3...''), Inr 4,
          Inl (lit ''42''), Inr 2,
          Inl (lit ''R'' @ [233] @ lit ''ponse copi'' @ [233]
               @ lit ''e dans le presse-papiers.'')]
   \<and> notify_toast env_busy2_then_42 (lit ''Gemini Scanner'') (lit ''42'')
       = [ToastShow (lit ''Gemini Scanner'') (lit ''42''),
          LogInfo (lit ''Notification affich'' @ [233] @ lit ''e: ''
                   @ lit ''Gemini Scanner'' @ lit '' (part 1)''),
          ToastPause]"
proof -
  have direct: "notify_toast env_busy2_then_42 (lit ''Gemini Scanner'') (lit ''42'')
       = [ToastShow (lit ''Gemini Scanner'') (lit ''42''),
          LogInfo (lit ''Notification affich'' @ [233] @ lit ''e: ''
                   @ lit ''Gemini Scanner'' @ lit '' (part 1)''),
          ToastPause]"
    by (simp add: notify_toast_def toast_parts_def py_strip_def py_isspace_def lit_def
          split_parts.simps max_len_def str_nat.simps
          env_busy2_then_42_def env_paris_def)
  have hyps: "grab env_busy2_then_42 = None" "encode env_busy2_then_42 = None" "(2::nat) \<le> 2"
    "\<forall>i. 1 \<le> i \<and> i \<le> 2 \<longrightarrow>
       generate_content env_busy2_then_42 i = Inl busy \<and> retryable (py_str busy)"
    "generate_content env_busy2_then_42 (2 + 1) = Inr (lit ''42'')"
    "py_strip (lit ''42'') \<noteq> []"
    "copy_in_loop env_busy2_then_42 (2 + 1) = None" "copy_final env_busy2_then_42 = None"
    by (simp_all add: env_busy2_then_42_def env_paris_def retryable_busy strip_literals
          lit_nonempty)
  have notifier: "USE_WINOTIFY env_busy2_then_42"
    "\<forall>t m. toast_show env_busy2_then_42 t m = None"
    by (simp_all add: env_busy2_then_42_def env_paris_def)
  have parts: "toast_parts (lit ''42'') = [lit ''42'']"
    by (rule toast_parts_single) (simp_all add: lit_def py_isspace_def)
  note inst = retries_then_answer_succeeds [of env_busy2_then_42 2 "\<lambda>i. busy" "lit ''42''" world0,
      OF hyps]
  from inst have run: "capture_et_analyse env_busy2_then_42 world0 =
           (Succeeded,
            (emit (started env_busy2_then_42 @ retries env_busy2_then_42 (\<lambda>i. busy) 2
                   @ answer_events (2 + 1) (py_strip (lit ''42''))
                   @ [ClipboardCopy (py_strip (lit ''42''))]
                   @ notify_toast env_busy2_then_42 (lit ''Gemini Scanner'') (py_strip (lit ''42''))
                   @ [Sleep 2]
                   @ notify_toast env_busy2_then_42 (lit ''Gemini Scanner'') msg_copied) world0)
              \<lparr>clipboard := py_strip (lit ''42'')\<rparr>)"
    by blast
  from inst notifier have "timeline (new_events world0 (snd (capture_et_analyse env_busy2_then_42 world0)))
      = Inl msg_in_progress
        # concat (map (\<lambda>i. [Inl (retry_message i), Inr (2 ^ i)]) [1..<2 + 1])
        @ map Inl (toast_parts (py_strip (lit ''42'')))
        @ [Inr 2, Inl msg_copied]"
    by blast
  then have seen: "timeline (events (snd (capture_et_analyse env_busy2_then_42 world0)))
       = [Inl (lit ''Analyse en cours (capture auto)...''),
          Inl (lit ''Serveur occup'' @ [233] @ lit '', retry 1/3...''), Inr 2,
          Inl (lit ''Serveur occup'' @ [233] @ lit '', retry 2/3...''), Inr 4,
          Inl (lit ''42''), Inr 2,
          Inl (lit ''R'' @ [233] @ lit ''ponse copi'' @ [233]
               @ lit ''e dans le presse-papiers.'')]"
    unfolding upt_small strip_literals parts new_events_world0
    by (simp add: retry_message_text msg_in_progress_def msg_copied_def del: One_nat_def)
  have rest: "fst (capture_et_analyse env_busy2_then_42 world0) = Succeeded
     \<and> clipboard (snd (capture_et_analyse env_busy2_then_42 world0)) = lit ''42''
     \<and> generate_calls (events (snd (capture_et_analyse env_busy2_then_42 world0))) = [1, 2, 3]
     \<and> clipboard_writes (events (snd (capture_et_analyse env_busy2_then_42 world0)))
         = [lit ''42'', lit ''42'']"
    unfolding run by (simp add: strip_literals retries_small world0_def)
  from rest seen direct show ?thesis by blast
qed

subsection \<open>Every attempt fails with a retryable error\<close>

text \<open>
  C4. When capture and encoding go through and each of the attempts 1, 2, 3 fails with
  a retryable error, the run ends Failed after exactly the three calls of the analyzer
  and nothing is written to the clipboard. Its last notification is notify_toast with
  the title "Erreur" and the message "Aucune reponse obtenue de Gemini.": when
  winotify is available and every toast can be shown that is one toast with this
  title and message, the last thing the user lives through after the three retry
  toasts and the sleeps of 2, 4 and 8; when winotify is not available it is the log
  line of the notifier with the same title and message.
\<close>

theorem all_attempts_retryable_fails:
  assumes "grab env = None" and "encode env = None"
    and "\<forall>i. 1 \<le> i \<and> i \<le> 3 \<longrightarrow>
           generate_content env i = Inl (errs i) \<and> retryable (py_str (errs i))"
  shows "capture_et_analyse env w =
           (Failed,
            emit (started env
                  @ retry_events env 1 (errs 1) 2 @ retry_events env 2 (errs 2) 4
                  @ retry_events env 3 (errs 3) 8
                  @ notify_toast env (lit ''Erreur'') msg_no_answer
                  @ [LogError (lit ''Aucune r'' @ [233] @ lit ''ponse Gemini apr'' @ [232]
                               @ lit ''s plusieurs tentatives.'')]) w)
         \<and> generate_calls (new_events w (snd (capture_et_analyse env w))) = [1, 2, 3]
         \<and> clipboard_writes (new_events w (snd (capture_et_analyse env w))) = []
         \<and> clipboard (snd (capture_et_analyse env w)) = clipboard w
         \<and> (USE_WINOTIFY env \<and> (\<forall>t m. toast_show env t m = None) \<longrightarrow>
              notify_toast env (lit ''Erreur'') msg_no_answer
                = [ToastShow (lit ''Erreur'') msg_no_answer,
                   LogInfo (lit ''Notification affich'' @ [233] @ lit ''e: '' @ lit ''Erreur''
                            @ lit '' (part 1)''),
                   ToastPause]
              \<and> timeline (new_events w (snd (capture_et_analyse env w)))
                = [Inl msg_in_progress,
                   Inl (retry_message 1), Inr 2, Inl (retry_message 2), Inr 4,
                   Inl (retry_message 3), Inr 8,
                   Inl msg_no_answer])
         \<and> (\<not> USE_WINOTIFY env \<longrightarrow>
              notify_toast env (lit ''Erreur'') msg_no_answer
                = [LogInfo (lit ''[Notification] '' @ lit ''Erreur'' @ lit '': ''
                            @ msg_no_answer)])
         \<and> msg_no_answer = lit ''Aucune r'' @ [233] @ lit ''ponse obtenue de Gemini.''"
proof -
  have run: "capture_et_analyse env w =
           (Failed,
            emit (started env
                  @ retry_events env 1 (errs 1) 2 @ retry_events env 2 (errs 2) 4
                  @ retry_events env 3 (errs 3) 8
                  @ gave_up env) w)"
    using assms by (intro run_exhausted) simp_all
  have toast: "notify_toast env (lit ''Erreur'') msg_no_answer
                = [ToastShow (lit ''Erreur'') msg_no_answer,
                   LogInfo (lit ''Notification affich'' @ [233] @ lit ''e: '' @ lit ''Erreur''
                            @ lit '' (part 1)''),
                   ToastPause]"
    and shown: "timeline (new_events w (snd (capture_et_analyse env w)))
                = [Inl msg_in_progress,
                   Inl (retry_message 1), Inr 2, Inl (retry_message 2), Inr 4,
                   Inl (retry_message 3), Inr 8,
                   Inl msg_no_answer]"
    if on: "USE_WINOTIFY env" and ok: "\<And>t m. toast_show env t m = None"
  proof -
    show "notify_toast env (lit ''Erreur'') msg_no_answer
                = [ToastShow (lit ''Erreur'') msg_no_answer,
                   LogInfo (lit ''Notification affich'' @ [233] @ lit ''e: '' @ lit ''Erreur''
                            @ lit '' (part 1)''),
                   ToastPause]"
      using notify_single [OF on ok fixed_message_parts(2), of "lit ''Erreur''"] by simp
    show "timeline (new_events w (snd (capture_et_analyse env w)))
                = [Inl msg_in_progress,
                   Inl (retry_message 1), Inr 2, Inl (retry_message 2), Inr 4,
                   Inl (retry_message 3), Inr 8,
                   Inl msg_no_answer]"
      unfolding run
      by (simp add: timeline_parts [OF on ok] fixed_message_parts del: One_nat_def)
  qed
  have log: "notify_toast env (lit ''Erreur'') msg_no_answer
                = [LogInfo (lit ''[Notification] '' @ lit ''Erreur'' @ lit '': ''
                            @ msg_no_answer)]"
    if "\<not> USE_WINOTIFY env"
    using that by (simp add: notify_fallback fixed_message_short)
  from run toast shown log show ?thesis
    by (simp add: gave_up_def msg_no_answer_def)
qed

theorem all_attempts_retryable_fails_witness:
  "fst (capture_et_analyse env_always_busy world0) = Failed
   \<and> generate_calls (events (snd (capture_et_analyse env_always_busy world0))) = [1, 2, 3]
   \<and> clipboard_writes (events (snd (capture_et_analyse env_always_busy world0))) = []
   \<and> clipboard (snd (capture_et_analyse env_always_busy world0)) = []
   \<and> timeline (events (snd (capture_et_analyse env_always_busy world0)))
       = [Inl (lit ''Analyse en cours (capture auto)...''),
          Inl (lit ''Serveur occup'' @ [233] @ lit '', retry 1/3...''), Inr 2,
          Inl (lit ''Serveur occup'' @ [233] @ lit '', retry 2/3...''), Inr 4,
          Inl (lit ''Serveur occup'' @ [233] @ lit '', retry 3/3...''), Inr 8,
          Inl (lit ''Aucune r'' @ [233] @ lit ''ponse obtenue de Gemini.'')]
   \<and> notify_toast env_always_busy (lit ''Erreur'')
         (lit ''Aucune r'' @ [233] @ lit ''ponse obtenue de Gemini.'')
       = [ToastShow (lit ''Erreur'')
            (lit ''Aucune r'' @ [233] @ lit ''ponse obtenue de Gemini.''),
          LogInfo (lit ''Notification affich'' @ [233] @ lit ''e: '' @ lit ''Erreur''
                   @ lit '' (part 1)''),
          ToastPause]"
proof -
  have direct: "notify_toast env_always_busy (lit ''Erreur'')
         (lit ''Aucune r'' @ [233] @ lit ''ponse obtenue de Gemini.'')
       = [ToastShow (lit ''Erreur'')
            (lit ''Aucune r'' @ [233] @ lit ''ponse obtenue de Gemini.''),
          LogInfo (lit ''Notification affich'' @ [233] @ lit ''e: '' @ lit ''Erreur''
                   @ lit '' (part 1)''),
          ToastPause]"
    by (simp add: notify_toast_def toast_parts_def py_strip_def py_isspace_def lit_def
          split_parts.simps max_len_def str_nat.simps
          env_always_busy_def env_paris_def)
  have hyps: "grab env_always_busy = None" "encode env_always_busy = None"
    "\<forall>i. 1 \<le> i \<and> i \<le> 3 \<longrightarrow>
       generate_content env_always_busy i = Inl busy \<and> retryable (py_str busy)"
    by (simp_all add: env_always_busy_def env_paris_def retryable_busy)
  have notifier: "USE_WINOTIFY env_always_busy" "\<forall>t m. toast_show env_always_busy t m = None"
    by (simp_all add: env_always_busy_def env_paris_def)
  note inst = all_attempts_retryable_fails [of env_always_busy "\<lambda>i. busy" world0, OF hyps]
  from inst have run: "capture_et_analyse env_always_busy world0 =
           (Failed,
            emit (started env_always_busy
                  @ retry_events env_always_busy 1 busy 2 @ retry_events env_always_busy 2 busy 4
                  @ retry_events env_always_busy 3 busy 8
                  @ notify_toast env_always_busy (lit ''Erreur'') msg_no_answer
                  @ [LogError (lit ''Aucune r'' @ [233] @ lit ''ponse Gemini apr'' @ [232]
                               @ lit ''s plusieurs tentatives.'')]) world0)"
    by blast
  from inst notifier have "timeline (new_events world0 (snd (capture_et_analyse env_always_busy world0)))
                = [Inl msg_in_progress,
                   Inl (retry_message 1), Inr 2, Inl (retry_message 2), Inr 4,
                   Inl (retry_message 3), Inr 8,
                   Inl msg_no_answer]"
    by blast
  then have seen: "timeline (events (snd (capture_et_analyse env_always_busy world0)))
       = [Inl (lit ''Analyse en cours (capture auto)...''),
          Inl (lit ''Serveur occup'' @ [233] @ lit '', retry 1/3...''), Inr 2,
          Inl (lit ''Serveur occup'' @ [233] @ lit '', retry 2/3...''), Inr 4,
          Inl (lit ''Serveur occup'' @ [233] @ lit '', retry 3/3...''), Inr 8,
          Inl (lit ''Aucune r'' @ [233] @ lit ''ponse obtenue de Gemini.'')]"
    unfolding new_events_world0
    by (simp add: retry_message_text msg_in_progress_def msg_no_answer_def del: One_nat_def)
  have rest: "fst (capture_et_analyse env_always_busy world0) = Failed
   \<and> generate_calls (events (snd (capture_et_analyse env_always_busy world0))) = [1, 2, 3]
   \<and> clipboard_writes (events (snd (capture_et_analyse env_always_busy world0))) = []
   \<and> clipboard (snd (capture_et_analyse env_always_busy world0)) = []"
    unfolding run by (simp add: world0_def)
  from rest seen direct show ?thesis by blast
qed

subsection \<open>Permanent error\<close>

text \<open>
  C5, as the claim states it, fails on "exactly one error notification containing the
  raw error text". A permanent error whose text has 301 characters is shown in two
  toasts, of 300 characters and of 1, neither of which holds the text; a permanent
  error with an empty text is shown in no toast at all. Both runs make one analyzer
  call and end Failed.
\<close>

theorem permanent_error_counterexample:
  "generate_content env_long_error 1 = Inl long_error
   \<and> \<not> retryable (py_str long_error)
   \<and> length (py_str long_error) = 301
   \<and> fst (capture_et_analyse env_long_error world0) = Failed
   \<and> timeline (events (snd (capture_et_analyse env_long_error world0)))
       = [Inl msg_in_progress, Inl (replicate 300 120), Inl [120]]
   \<and> generate_content env_empty_error 1 = Inl empty_error
   \<and> \<not> retryable (py_str empty_error)
   \<and> fst (capture_et_analyse env_empty_error world0) = Failed
   \<and> timeline (events (snd (capture_et_analyse env_empty_error world0)))
       = [Inl msg_in_progress]"
proof -
  have perm: "\<not> retryable (py_str long_error)" "\<not> retryable (py_str empty_error)"
    by (simp_all add: long_error_def empty_error_def not_retryable_replicate not_retryable_empty)
  have gen: "generate_content env_long_error 1 = Inl long_error"
    "generate_content env_empty_error 1 = Inl empty_error"
    "length (py_str long_error) = 301"
    by (simp_all add: env_long_error_def env_empty_error_def long_error_def)
  have on: "USE_WINOTIFY env_long_error" "USE_WINOTIFY env_empty_error"
    and ok: "\<And>t m. toast_show env_long_error t m = None"
      "\<And>t m. toast_show env_empty_error t m = None"
    by (simp_all add: env_long_error_def env_empty_error_def env_paris_def)
  have "capture_et_analyse env_long_error world0 =
           (Failed,
            emit (started env_long_error
                  @ [Generate 1,
                     LogWarning (lit ''Erreur Gemini (tentative '' @ str_nat 1 @ lit ''): ''
                                 @ py_str long_error)]
                  @ notify_toast env_long_error (lit ''Erreur Gemini'') (py_str long_error))
              world0)"
    using perm(1) by (intro run_permanent) (simp_all add: env_long_error_def env_paris_def)
  then have long: "fst (capture_et_analyse env_long_error world0) = Failed
     \<and> timeline (events (snd (capture_et_analyse env_long_error world0)))
         = [Inl msg_in_progress, Inl (replicate 300 120), Inl [120]]"
    using parts_long_error
    by (simp add: world0_def timeline_parts [OF on(1) ok(1)] timeline_notify [OF on(1) ok(1)]
          long_error_def)
  have "capture_et_analyse env_empty_error world0 =
           (Failed,
            emit (started env_empty_error
                  @ [Generate 1,
                     LogWarning (lit ''Erreur Gemini (tentative '' @ str_nat 1 @ lit ''): ''
                                 @ py_str empty_error)]
                  @ notify_toast env_empty_error (lit ''Erreur Gemini'') (py_str empty_error))
              world0)"
    using perm(2) by (intro run_permanent) (simp_all add: env_empty_error_def env_paris_def)
  then have empty: "fst (capture_et_analyse env_empty_error world0) = Failed
     \<and> timeline (events (snd (capture_et_analyse env_empty_error world0)))
         = [Inl msg_in_progress]"
    using parts_empty
    by (simp add: world0_def timeline_parts [OF on(2) ok(2)] timeline_notify [OF on(2) ok(2)]
          empty_error_def)
  from perm gen long empty show ?thesis by blast
qed

text \<open>
  C5, amended. When capture and encoding go through and the first attempt fails with
  an error whose text is not retryable, the run makes that one call of the analyzer
  and no other, writes nothing to the clipboard, calls notify_toast once for the
  error, with the title "Erreur Gemini" and the text of the error as it is, and ends
  Failed. When winotify is available and every toast can be shown, the user is shown,
  after the toast "Analyse en cours", the stripped text of the error in
  ceil(len / 300) toasts of at most 300 characters: exactly one toast, titled
  "Erreur Gemini" and holding the whole text, when the text has 1 to 300 characters
  and neither starts nor ends with white space. When winotify is not available the
  call writes one log line with the title and the first 256 characters of the text.
\<close>

theorem permanent_error_fails_at_once:
  assumes "grab env = None" and "encode env = None"
    and "generate_content env 1 = Inl e" and "\<not> retryable (py_str e)"
  shows "capture_et_analyse env w =
           (Failed,
            emit (started env
                  @ [Generate 1,
                     LogWarning (lit ''Erreur Gemini (tentative '' @ str_nat 1 @ lit ''): ''
                                 @ py_str e)]
                  @ notify_toast env (lit ''Erreur Gemini'') (py_str e)) w)
         \<and> generate_calls (new_events w (snd (capture_et_analyse env w))) = [1]
         \<and> clipboard_writes (new_events w (snd (capture_et_analyse env w))) = []
         \<and> clipboard (snd (capture_et_analyse env w)) = clipboard w
         \<and> (USE_WINOTIFY env \<and> (\<forall>t m. toast_show env t m = None) \<longrightarrow>
              timeline (new_events w (snd (capture_et_analyse env w)))
                = Inl msg_in_progress # map Inl (toast_parts (py_str e)))
         \<and> concat (toast_parts (py_str e)) = py_strip (py_str e)
         \<and> length (toast_parts (py_str e)) = (length (py_strip (py_str e)) + 299) div 300
         \<and> (\<forall>p \<in> set (toast_parts (py_str e)). p \<noteq> [] \<and> length p \<le> 300)
         \<and> (USE_WINOTIFY env \<and> (\<forall>t m. toast_show env t m = None)
              \<and> py_str e \<noteq> [] \<and> length (py_str e) \<le> 300
              \<and> \<not> py_isspace (hd (py_str e)) \<and> \<not> py_isspace (last (py_str e)) \<longrightarrow>
              notify_toast env (lit ''Erreur Gemini'') (py_str e)
                = [ToastShow (lit ''Erreur Gemini'') (py_str e),
                   LogInfo (lit ''Notification affich'' @ [233] @ lit ''e: ''
                            @ lit ''Erreur Gemini'' @ lit '' (part 1)''),
                   ToastPause])
         \<and> (\<not> USE_WINOTIFY env \<longrightarrow>
              notify_toast env (lit ''Erreur Gemini'') (py_str e)
                = [LogInfo (lit ''[Notification] '' @ lit ''Erreur Gemini'' @ lit '': ''
                            @ take 256 (py_str e))])"
proof -
  have run: "capture_et_analyse env w =
           (Failed,
            emit (started env
                  @ [Generate 1,
                     LogWarning (lit ''Erreur Gemini (tentative '' @ str_nat 1 @ lit ''): ''
                                 @ py_str e)]
                  @ notify_toast env (lit ''Erreur Gemini'') (py_str e)) w)"
    using assms by (rule run_permanent)
  have counts: "generate_calls (new_events w (snd (capture_et_analyse env w))) = [1]
         \<and> clipboard_writes (new_events w (snd (capture_et_analyse env w))) = []
         \<and> clipboard (snd (capture_et_analyse env w)) = clipboard w"
    unfolding run by simp
  have shown: "timeline (new_events w (snd (capture_et_analyse env w)))
                = Inl msg_in_progress # map Inl (toast_parts (py_str e))"
    if on: "USE_WINOTIFY env" and ok: "\<And>t m. toast_show env t m = None"
    unfolding run by (simp add: timeline_parts [OF on ok] timeline_notify [OF on ok])
  have one: "notify_toast env (lit ''Erreur Gemini'') (py_str e)
                = [ToastShow (lit ''Erreur Gemini'') (py_str e),
                   LogInfo (lit ''Notification affich'' @ [233] @ lit ''e: ''
                            @ lit ''Erreur Gemini'' @ lit '' (part 1)''),
                   ToastPause]"
    if on: "USE_WINOTIFY env" and ok: "\<And>t m. toast_show env t m = None"
      and etext: "py_str e \<noteq> []" "length (py_str e) \<le> 300"
        "\<not> py_isspace (hd (py_str e))" "\<not> py_isspace (last (py_str e))"
    using notify_single [OF on ok toast_parts_single [OF etext], of "lit ''Erreur Gemini''"]
    by simp
  have log: "notify_toast env (lit ''Erreur Gemini'') (py_str e)
                = [LogInfo (lit ''[Notification] '' @ lit ''Erreur Gemini'' @ lit '': ''
                            @ take 256 (py_str e))]"
    if "\<not> USE_WINOTIFY env"
    using that by (simp add: notify_fallback)
  from run counts shown one log toast_parts_facts [of "py_str e"] show ?thesis
    by blast
qed

theorem permanent_error_fails_at_once_witness:
  "\<not> retryable (lit ''invalid API key'')
   \<and> fst (capture_et_analyse env_bad_key world0) = Failed
   \<and> generate_calls (events (snd (capture_et_analyse env_bad_key world0))) = [1]
   \<and> clipboard_writes (events (snd (capture_et_analyse env_bad_key world0))) = []
   \<and> timeline (events (snd (capture_et_analyse env_bad_key world0)))
       = [Inl (lit ''Analyse en cours (capture auto)...''), Inl (lit ''invalid API key'')]
   \<and> notify_toast env_bad_key (lit ''Erreur Gemini'') (lit ''invalid API key'')
       = [ToastShow (lit ''Erreur Gemini'') (lit ''invalid API key''),
          LogInfo (lit ''Notification affich'' @ [233] @ lit ''e: ''
                   @ lit ''Erreur Gemini'' @ lit '' (part 1)''),
          ToastPause]"
proof -
  have direct: "notify_toast env_bad_key (lit ''Erreur Gemini'') (lit ''invalid API key'')
       = [ToastShow (lit ''Erreur Gemini'') (lit ''invalid API key''),
          LogInfo (lit ''Notification affich'' @ [233] @ lit ''e: ''
                   @ lit ''Erreur Gemini'' @ lit '' (part 1)''),
          ToastPause]"
    by (simp add: notify_toast_def toast_parts_def py_strip_def py_isspace_def lit_def
          split_parts.simps max_len_def str_nat.simps
          env_bad_key_def env_paris_def)
  have perm: "\<not> retryable (lit ''invalid API key'')"
    by (simp add: retryable_def lit_def)
  have hyps: "grab env_bad_key = None" "encode env_bad_key = None"
    "generate_content env_bad_key 1 = Inl bad_key" "\<not> retryable (py_str bad_key)"
    using perm by (simp_all add: env_bad_key_def env_paris_def bad_key_def)
  have notifier: "USE_WINOTIFY env_bad_key" "\<forall>t m. toast_show env_bad_key t m = None"
    by (simp_all add: env_bad_key_def env_paris_def)
  have etext: "py_str bad_key = lit ''invalid API key''"
    "py_str bad_key \<noteq> []" "length (py_str bad_key) \<le> 300"
    "\<not> py_isspace (hd (py_str bad_key))" "\<not> py_isspace (last (py_str bad_key))"
    by (simp_all add: bad_key_def lit_def py_isspace_def)
  have parts: "toast_parts (lit ''invalid API key'') = [lit ''invalid API key'']"
    using toast_parts_single [OF etext(2-5)] etext(1) by simp
  note inst = permanent_error_fails_at_once [of env_bad_key bad_key world0, OF hyps]
  from inst have "fst (capture_et_analyse env_bad_key world0) = Failed"
    and "generate_calls (new_events world0 (snd (capture_et_analyse env_bad_key world0))) = [1]"
    and "clipboard_writes (new_events world0 (snd (capture_et_analyse env_bad_key world0))) = []"
    by simp_all
  moreover from inst notifier
  have "timeline (new_events world0 (snd (capture_et_analyse env_bad_key world0)))
          = Inl msg_in_progress # map Inl (toast_parts (py_str bad_key))"
    by blast
  moreover from inst notifier etext(2-5)
  have "notify_toast env_bad_key (lit ''Erreur Gemini'') (py_str bad_key)
                = [ToastShow (lit ''Erreur Gemini'') (py_str bad_key),
                   LogInfo (lit ''Notification affich'' @ [233] @ lit ''e: ''
                            @ lit ''Erreur Gemini'' @ lit '' (part 1)''),
                   ToastPause]"
    by blast
  ultimately show ?thesis
    using perm direct unfolding new_events_world0 etext(1)
    by (simp add: msg_in_progress_def parts)
qed

subsection \<open>Backoff\<close>

text \<open>
  C6. The delay starts at 2 and doubles after each retryable failure. When the first
  two attempts fail with a retryable error, each is followed by notify_toast with
  "Serveur occupe, retry 1/3..." and "Serveur occupe, retry 2/3..." under the title
  "Gemini Scanner" and by a sleep of 2 and of 4. If the third attempt then gives an
  answer that is delivered, the sleeps of the run are 2, 4 and the 2 before the last
  notification; if it fails with a retryable error too, they are 2, 4, 8. When
  winotify is available and every toast can be shown, each of these notifications is
  one toast with that title and message, shown before the sleep of its attempt; when
  winotify is not available each is the log line of the notifier with that title and
  message.
\<close>

theorem backoff_doubles:
  assumes "grab env = None" and "encode env = None"
    and "generate_content env 1 = Inl e1" and "retryable (py_str e1)"
    and "generate_content env 2 = Inl e2" and "retryable (py_str e2)"
  shows "(generate_content env 3 = Inr t \<and> py_strip t \<noteq> []
            \<and> copy_in_loop env 3 = None \<and> copy_final env = None \<longrightarrow>
            new_events w (snd (capture_et_analyse env w))
              = started env @ retry_events env 1 e1 2 @ retry_events env 2 e2 4
                @ answer_events 3 (py_strip t) @ delivered env (py_strip t)
            \<and> sleeps (new_events w (snd (capture_et_analyse env w))) = [2, 4, 2]
            \<and> clipboard (snd (capture_et_analyse env w)) = py_strip t)
         \<and> (generate_content env 3 = Inl e3 \<and> retryable (py_str e3) \<longrightarrow>
            new_events w (snd (capture_et_analyse env w))
              = started env @ retry_events env 1 e1 2 @ retry_events env 2 e2 4
                @ retry_events env 3 e3 8 @ gave_up env
            \<and> sleeps (new_events w (snd (capture_et_analyse env w))) = [2, 4, 8])
         \<and> retry_events env 1 e1 2
              = [Generate 1,
                 LogWarning (lit ''Erreur Gemini (tentative 1): '' @ py_str e1)]
                @ notify_toast env (lit ''Gemini Scanner'')
                    (lit ''Serveur occup'' @ [233] @ lit '', retry 1/3...'')
                @ [Sleep 2]
         \<and> retry_events env 2 e2 4
              = [Generate 2,
                 LogWarning (lit ''Erreur Gemini (tentative 2): '' @ py_str e2)]
                @ notify_toast env (lit ''Gemini Scanner'')
                    (lit ''Serveur occup'' @ [233] @ lit '', retry 2/3...'')
                @ [Sleep 4]
         \<and> (USE_WINOTIFY env \<and> (\<forall>t m. toast_show env t m = None) \<longrightarrow>
              notify_toast env (lit ''Gemini Scanner'')
                  (lit ''Serveur occup'' @ [233] @ lit '', retry 1/3...'')
                = [ToastShow (lit ''Gemini Scanner'')
                     (lit ''Serveur occup'' @ [233] @ lit '', retry 1/3...''),
                   LogInfo (lit ''Notification affich'' @ [233] @ lit ''e: ''
                            @ lit ''Gemini Scanner'' @ lit '' (part 1)''),
                   ToastPause]
              \<and> notify_toast env (lit ''Gemini Scanner'')
                  (lit ''Serveur occup'' @ [233] @ lit '', retry 2/3...'')
                = [ToastShow (lit ''Gemini Scanner'')
                     (lit ''Serveur occup'' @ [233] @ lit '', retry 2/3...''),
                   LogInfo (lit ''Notification affich'' @ [233] @ lit ''e: ''
                            @ lit ''Gemini Scanner'' @ lit '' (part 1)''),
                   ToastPause]
              \<and> (generate_content env 3 = Inr t \<and> py_strip t \<noteq> []
                    \<and> copy_in_loop env 3 = None \<and> copy_final env = None \<longrightarrow>
                  timeline (new_events w (snd (capture_et_analyse env w)))
                    = [Inl msg_in_progress,
                       Inl (lit ''Serveur occup'' @ [233] @ lit '', retry 1/3...''), Inr 2,
                       Inl (lit ''Serveur occup'' @ [233] @ lit '', retry 2/3...''), Inr 4]
                      @ map Inl (toast_parts (py_strip t))
                      @ [Inr 2, Inl msg_copied])
              \<and> (generate_content env 3 = Inl e3 \<and> retryable (py_str e3) \<longrightarrow>
                  timeline (new_events w (snd (capture_et_analyse env w)))
                    = [Inl msg_in_progress,
                       Inl (lit ''Serveur occup'' @ [233] @ lit '', retry 1/3...''), Inr 2,
                       Inl (lit ''Serveur occup'' @ [233] @ lit '', retry 2/3...''), Inr 4,
                       Inl (lit ''Serveur occup'' @ [233] @ lit '', retry 3/3...''), Inr 8,
                       Inl msg_no_answer]))
         \<and> (\<not> USE_WINOTIFY env \<longrightarrow>
              notify_toast env (lit ''Gemini Scanner'')
                  (lit ''Serveur occup'' @ [233] @ lit '', retry 1/3...'')
                = [LogInfo (lit ''[Notification] '' @ lit ''Gemini Scanner'' @ lit '': ''
                            @ lit ''Serveur occup'' @ [233] @ lit '', retry 1/3...'')]
              \<and> notify_toast env (lit ''Gemini Scanner'')
                  (lit ''Serveur occup'' @ [233] @ lit '', retry 2/3...'')
                = [LogInfo (lit ''[Notification] '' @ lit ''Gemini Scanner'' @ lit '': ''
                            @ lit ''Serveur occup'' @ [233] @ lit '', retry 2/3...'')])"
proof -
  let ?errs = "\<lambda>i::nat. if i = 1 then e1 else if i = 2 then e2 else e3"
  let ?r1 = "lit ''Serveur occup'' @ [233] @ lit '', retry 1/3...''"
  let ?r2 = "lit ''Serveur occup'' @ [233] @ lit '', retry 2/3...''"
  let ?r3 = "lit ''Serveur occup'' @ [233] @ lit '', retry 3/3...''"
  have two: "\<And>i. 1 \<le> i \<Longrightarrow> i \<le> 2 \<Longrightarrow>
      generate_content env i = Inl (?errs i) \<and> retryable (py_str (?errs i))"
  proof -
    fix i :: nat
    assume "1 \<le> i" and "i \<le> 2"
    then consider "i = 1" | "i = 2" by linarith
    then show "generate_content env i = Inl (?errs i) \<and> retryable (py_str (?errs i))"
      using assms(3-6) by cases simp_all
  qed
  have run_ok: "capture_et_analyse env w =
           (Succeeded,
            (emit (started env @ retry_events env 1 e1 2 @ retry_events env 2 e2 4
                   @ answer_events 3 (py_strip t) @ delivered env (py_strip t)) w)
              \<lparr>clipboard := py_strip t\<rparr>)"
    if ok: "generate_content env 3 = Inr t \<and> py_strip t \<noteq> []
            \<and> copy_in_loop env 3 = None \<and> copy_final env = None"
    using assms(1,2) two ok
    by (subst run_answer [where k = 2 and errs = ?errs and t = t])
       (simp_all add: retries_small)
  have run_bad: "capture_et_analyse env w =
           (Failed,
            emit (started env @ retry_events env 1 e1 2 @ retry_events env 2 e2 4
                  @ retry_events env 3 e3 8 @ gave_up env) w)"
    if bad: "generate_content env 3 = Inl e3 \<and> retryable (py_str e3)"
  proof -
    have three: "\<And>i. 1 \<le> i \<Longrightarrow> i \<le> 3 \<Longrightarrow>
        generate_content env i = Inl (?errs i) \<and> retryable (py_str (?errs i))"
    proof -
      fix i :: nat
      assume "1 \<le> i" and "i \<le> 3"
      then consider "i = 1" | "i = 2" | "i = 3" by linarith
      then show "generate_content env i = Inl (?errs i) \<and> retryable (py_str (?errs i))"
        using assms(3-6) bad by cases simp_all
    qed
    show ?thesis
      using run_exhausted [of env ?errs w, OF assms(1,2) three] by simp
  qed
  have first: "generate_content env 3 = Inr t \<and> py_strip t \<noteq> []
            \<and> copy_in_loop env 3 = None \<and> copy_final env = None \<longrightarrow>
            new_events w (snd (capture_et_analyse env w))
              = started env @ retry_events env 1 e1 2 @ retry_events env 2 e2 4
                @ answer_events 3 (py_strip t) @ delivered env (py_strip t)
            \<and> sleeps (new_events w (snd (capture_et_analyse env w))) = [2, 4, 2]
            \<and> clipboard (snd (capture_et_analyse env w)) = py_strip t"
    using run_ok by simp
  have second: "generate_content env 3 = Inl e3 \<and> retryable (py_str e3) \<longrightarrow>
            new_events w (snd (capture_et_analyse env w))
              = started env @ retry_events env 1 e1 2 @ retry_events env 2 e2 4
                @ retry_events env 3 e3 8 @ gave_up env
            \<and> sleeps (new_events w (snd (capture_et_analyse env w))) = [2, 4, 8]"
    using run_bad by simp
  have third: "retry_events env 1 e1 2
              = [Generate 1,
                 LogWarning (lit ''Erreur Gemini (tentative 1): '' @ py_str e1)]
                @ notify_toast env (lit ''Gemini Scanner'') ?r1
                @ [Sleep 2]"
    by (simp add: retry_events_def retry_message_def max_retries_def lit_def str_nat.simps)
  have fourth: "retry_events env 2 e2 4
              = [Generate 2,
                 LogWarning (lit ''Erreur Gemini (tentative 2): '' @ py_str e2)]
                @ notify_toast env (lit ''Gemini Scanner'') ?r2
                @ [Sleep 4]"
    by (simp add: retry_events_def retry_message_def max_retries_def lit_def str_nat.simps)
  have parts: "toast_parts ?r1 = [?r1]" "toast_parts ?r2 = [?r2]" "toast_parts ?r3 = [?r3]"
    using fixed_message_parts(4-6) by (simp_all only: retry_message_text)
  have short: "take 256 ?r1 = ?r1" "take 256 ?r2 = ?r2"
    using fixed_message_short(4,5) by (simp_all only: retry_message_text)
  have toasts: "notify_toast env (lit ''Gemini Scanner'') ?r1
                = [ToastShow (lit ''Gemini Scanner'') ?r1,
                   LogInfo (lit ''Notification affich'' @ [233] @ lit ''e: ''
                            @ lit ''Gemini Scanner'' @ lit '' (part 1)''),
                   ToastPause]
              \<and> notify_toast env (lit ''Gemini Scanner'') ?r2
                = [ToastShow (lit ''Gemini Scanner'') ?r2,
                   LogInfo (lit ''Notification affich'' @ [233] @ lit ''e: ''
                            @ lit ''Gemini Scanner'' @ lit '' (part 1)''),
                   ToastPause]"
    if on: "USE_WINOTIFY env" and ok: "\<And>t m. toast_show env t m = None"
    using notify_single [OF on ok parts(1), of "lit ''Gemini Scanner''"]
      notify_single [OF on ok parts(2), of "lit ''Gemini Scanner''"]
    by simp
  have seen_ok: "timeline (new_events w (snd (capture_et_analyse env w)))
                    = [Inl msg_in_progress, Inl ?r1, Inr 2, Inl ?r2, Inr 4]
                      @ map Inl (toast_parts (py_strip t))
                      @ [Inr 2, Inl msg_copied]"
    if on: "USE_WINOTIFY env" and ok: "\<And>t m. toast_show env t m = None"
      and good: "generate_content env 3 = Inr t \<and> py_strip t \<noteq> []
            \<and> copy_in_loop env 3 = None \<and> copy_final env = None"
  proof -
    have "timeline (new_events w (snd (capture_et_analyse env w)))
                    = [Inl msg_in_progress, Inl (retry_message 1), Inr 2,
                       Inl (retry_message 2), Inr 4]
                      @ map Inl (toast_parts (py_strip t))
                      @ [Inr 2, Inl msg_copied]"
      unfolding run_ok [OF good]
      by (simp add: timeline_parts [OF on ok] fixed_message_parts del: One_nat_def)
    then show ?thesis by (simp only: retry_message_text)
  qed
  have seen_bad: "timeline (new_events w (snd (capture_et_analyse env w)))
                    = [Inl msg_in_progress, Inl ?r1, Inr 2, Inl ?r2, Inr 4,
                       Inl ?r3, Inr 8, Inl msg_no_answer]"
    if on: "USE_WINOTIFY env" and ok: "\<And>t m. toast_show env t m = None"
      and bad: "generate_content env 3 = Inl e3 \<and> retryable (py_str e3)"
  proof -
    have "timeline (new_events w (snd (capture_et_analyse env w)))
                    = [Inl msg_in_progress, Inl (retry_message 1), Inr 2,
                       Inl (retry_message 2), Inr 4,
                       Inl (retry_message 3), Inr 8, Inl msg_no_answer]"
      unfolding run_bad [OF bad]
      by (simp add: timeline_parts [OF on ok] fixed_message_parts del: One_nat_def)
    then show ?thesis by (simp only: retry_message_text)
  qed
  have logs: "notify_toast env (lit ''Gemini Scanner'') ?r1
                = [LogInfo (lit ''[Notification] '' @ lit ''Gemini Scanner'' @ lit '': '' @ ?r1)]
              \<and> notify_toast env (lit ''Gemini Scanner'') ?r2
                = [LogInfo (lit ''[Notification] '' @ lit ''Gemini Scanner'' @ lit '': '' @ ?r2)]"
    if "\<not> USE_WINOTIFY env"
    using that short by (simp add: notify_fallback)
  from first second third fourth toasts seen_ok seen_bad logs show ?thesis
    by (intro conjI impI) (blast | simp)+
qed

theorem backoff_doubles_witness:
  "sleeps (events (snd (capture_et_analyse env_busy2_then_42 world0))) = [2, 4, 2]
   \<and> clipboard (snd (capture_et_analyse env_busy2_then_42 world0)) = lit ''42''
   \<and> sleeps (events (snd (capture_et_analyse env_always_busy world0))) = [2, 4, 8]
   \<and> timeline (events (snd (capture_et_analyse env_busy2_then_42 world0)))
       = [Inl (lit ''Analyse en cours (capture auto)...''),
          Inl (lit ''Serveur occup'' @ [233] @ lit '', retry 1/3...''), Inr 2,
          Inl (lit ''Serveur occup'' @ [233] @ lit '', retry 2/3...''), Inr 4,
          Inl (lit ''42''), Inr 2,
          Inl (lit ''R'' @ [233] @ lit ''ponse copi'' @ [233]
               @ lit ''e dans le presse-papiers.'')]
   \<and> timeline (events (snd (capture_et_analyse env_always_busy world0)))
       = [Inl (lit ''Analyse en cours (capture auto)...''),
          Inl (lit ''Serveur occup'' @ [233] @ lit '', retry 1/3...''), Inr 2,
          Inl (lit ''Serveur occup'' @ [233] @ lit '', retry 2/3...''), Inr 4,
          Inl (lit ''Serveur occup'' @ [233] @ lit '', retry 3/3...''), Inr 8,
          Inl (lit ''Aucune r'' @ [233] @ lit ''ponse obtenue de Gemini.'')]
   \<and> notify_toast env_always_busy (lit ''Gemini Scanner'')
         (lit ''Serveur occup'' @ [233] @ lit '', retry 1/3...'')
       = [ToastShow (lit ''Gemini Scanner'')
            (lit ''Serveur occup'' @ [233] @ lit '', retry 1/3...''),
          LogInfo (lit ''Notification affich'' @ [233] @ lit ''e: ''
                   @ lit ''Gemini Scanner'' @ lit '' (part 1)''),
          ToastPause]"
proof -
  have direct: "notify_toast env_always_busy (lit ''Gemini Scanner'')
         (lit ''Serveur occup'' @ [233] @ lit '', retry 1/3...'')
       = [ToastShow (lit ''Gemini Scanner'')
            (lit ''Serveur occup'' @ [233] @ lit '', retry 1/3...''),
          LogInfo (lit ''Notification affich'' @ [233] @ lit ''e: ''
                   @ lit ''Gemini Scanner'' @ lit '' (part 1)''),
          ToastPause]"
    by (simp add: notify_toast_def toast_parts_def py_strip_def py_isspace_def lit_def
          split_parts.simps max_len_def str_nat.simps
          env_always_busy_def env_paris_def)
  have a: "grab env_busy2_then_42 = None" "encode env_busy2_then_42 = None"
    "generate_content env_busy2_then_42 1 = Inl busy" "retryable (py_str busy)"
    "generate_content env_busy2_then_42 2 = Inl busy" "retryable (py_str busy)"
    by (simp_all add: env_busy2_then_42_def env_paris_def retryable_busy)
  have a3: "generate_content env_busy2_then_42 3 = Inr (lit ''42'') \<and> py_strip (lit ''42'') \<noteq> []
      \<and> copy_in_loop env_busy2_then_42 3 = None \<and> copy_final env_busy2_then_42 = None"
    by (simp add: env_busy2_then_42_def env_paris_def strip_literals lit_nonempty)
  have an: "USE_WINOTIFY env_busy2_then_42 \<and> (\<forall>t m. toast_show env_busy2_then_42 t m = None)"
    by (simp add: env_busy2_then_42_def env_paris_def)
  have b: "grab env_always_busy = None" "encode env_always_busy = None"
    "generate_content env_always_busy 1 = Inl busy" "retryable (py_str busy)"
    "generate_content env_always_busy 2 = Inl busy" "retryable (py_str busy)"
    by (simp_all add: env_always_busy_def env_paris_def retryable_busy)
  have b3: "generate_content env_always_busy 3 = Inl busy \<and> retryable (py_str busy)"
    by (simp add: env_always_busy_def env_paris_def retryable_busy)
  have bn: "USE_WINOTIFY env_always_busy \<and> (\<forall>t m. toast_show env_always_busy t m = None)"
    by (simp add: env_always_busy_def env_paris_def)
  have parts: "toast_parts (lit ''42'') = [lit ''42'']"
    by (rule toast_parts_single) (simp_all add: lit_def py_isspace_def)
  note ia = backoff_doubles [of env_busy2_then_42 busy busy "lit ''42''" world0 busy, OF a]
  note ib = backoff_doubles [of env_always_busy busy busy "lit ''42''" world0 busy, OF b]
  from ia a3 have "sleeps (new_events world0 (snd (capture_et_analyse env_busy2_then_42 world0)))
        = [2, 4, 2]"
    and "clipboard (snd (capture_et_analyse env_busy2_then_42 world0)) = py_strip (lit ''42'')"
    by blast+
  moreover from ib b3
  have "sleeps (new_events world0 (snd (capture_et_analyse env_always_busy world0))) = [2, 4, 8]"
    by blast
  moreover from ia a3 an
  have "timeline (new_events world0 (snd (capture_et_analyse env_busy2_then_42 world0)))
          = [Inl msg_in_progress,
             Inl (lit ''Serveur occup'' @ [233] @ lit '', retry 1/3...''), Inr 2,
             Inl (lit ''Serveur occup'' @ [233] @ lit '', retry 2/3...''), Inr 4]
            @ map Inl (toast_parts (py_strip (lit ''42'')))
            @ [Inr 2, Inl msg_copied]"
    by blast
  moreover from ib b3 bn
  have "timeline (new_events world0 (snd (capture_et_analyse env_always_busy world0)))
          = [Inl msg_in_progress,
             Inl (lit ''Serveur occup'' @ [233] @ lit '', retry 1/3...''), Inr 2,
             Inl (lit ''Serveur occup'' @ [233] @ lit '', retry 2/3...''), Inr 4,
             Inl (lit ''Serveur occup'' @ [233] @ lit '', retry 3/3...''), Inr 8,
             Inl msg_no_answer]"
    by blast
  moreover from ib bn
  have "notify_toast env_always_busy (lit ''Gemini Scanner'')
         (lit ''Serveur occup'' @ [233] @ lit '', retry 1/3...'')
       = [ToastShow (lit ''Gemini Scanner'')
            (lit ''Serveur occup'' @ [233] @ lit '', retry 1/3...''),
          LogInfo (lit ''Notification affich'' @ [233] @ lit ''e: ''
                   @ lit ''Gemini Scanner'' @ lit '' (part 1)''),
          ToastPause]"
    by blast
  ultimately show ?thesis
    using direct unfolding new_events_world0 strip_literals parts
    by (simp add: msg_in_progress_def msg_copied_def msg_no_answer_def)
qed

subsection \<open>Encoding failure\<close>

text \<open>
  C7. The claim: a failure of the encoding step is logged and notified to the user the
  way a capture failure is, and no error leaves the pipeline worker. The capture step
  (lines 96 to 102) is inside a \<open>try\<close> that logs and notifies; the encoding step
  (lines 104 to 107) is inside none. Evaluated on a run whose capture succeeds and
  whose encoding raises: the exception leaves capture_et_analyse, and after the call
  of the encoder the run has logged nothing and notified nothing; the one toast of
  the run is the "Analyse en cours" of line 94.
\<close>

theorem encoding_failure_propagates:
  "capture_et_analyse env_encode_fails world0 =
     (Raised bad_image,
      world0\<lparr>events :=
        LogInfo (lit ''D'' @ [233] @ lit ''but capture_et_analyse'')
        # notify_toast env_encode_fails (lit ''Gemini Scanner'')
            (lit ''Analyse en cours (capture auto)...'')
        @ [Grab, LogInfo (lit ''Capture '' @ [233] @ lit ''cran r'' @ [233] @ lit ''ussie''),
           Encode]\<rparr>)
   \<and> notify_toast env_encode_fails (lit ''Gemini Scanner'')
            (lit ''Analyse en cours (capture auto)...'')
       = [ToastShow (lit ''Gemini Scanner'') (lit ''Analyse en cours (capture auto)...''),
          LogInfo (lit ''Notification affich'' @ [233] @ lit ''e: Gemini Scanner (part 1)''),
          ToastPause]"
  by (simp add: capture_et_analyse_def env_encode_fails_def env_paris_def world0_def emit_def
        notify_toast_def toast_parts_def py_strip_def py_isspace_def lit_def
        split_parts.simps max_len_def str_nat.simps)

subsection \<open>Capture failure\<close>

text \<open>
  C8, as the claim states it, fails on "notifies the user with the error text": when
  the screen capture raises an exception whose text is empty, the run ends Failed and
  the only toast of the run is the "Analyse en cours" shown before the capture; the
  user is shown nothing about the failure.
\<close>

theorem capture_failure_counterexample:
  "grab env_capture_empty_error = Some empty_error
   \<and> py_str empty_error = []
   \<and> USE_WINOTIFY env_capture_empty_error
   \<and> fst (capture_et_analyse env_capture_empty_error world0) = Failed
   \<and> timeline (events (snd (capture_et_analyse env_capture_empty_error world0)))
       = [Inl msg_in_progress]
   \<and> notify_toast env_capture_empty_error (lit ''Erreur capture'') (py_str empty_error) = []"
proof -
  have hyp: "grab env_capture_empty_error = Some empty_error" "py_str empty_error = []"
    and on: "USE_WINOTIFY env_capture_empty_error"
    and ok: "\<And>t m. toast_show env_capture_empty_error t m = None"
    by (simp_all add: env_capture_empty_error_def env_paris_def empty_error_def)
  have none: "notify_toast env_capture_empty_error (lit ''Erreur capture'') (py_str empty_error)
      = []"
    using on by (simp add: notify_toast_def parts_empty hyp(2))
  have first: "timeline (notify_toast env_capture_empty_error (lit ''Gemini Scanner'')
        (lit ''Analyse en cours (capture auto)...'')) = [Inl msg_in_progress]"
    using fixed_message_parts(1)
    by (simp add: timeline_notify [OF on ok] msg_in_progress_def)
  have "fst (capture_et_analyse env_capture_empty_error world0) = Failed
     \<and> timeline (events (snd (capture_et_analyse env_capture_empty_error world0)))
         = [Inl msg_in_progress]"
    unfolding run_capture_fails [OF hyp(1)]
    by (simp add: world0_def first none)
  with hyp on none show ?thesis by blast
qed

text \<open>
  C8, amended. When the screen capture raises, the run logs the error, calls
  notify_toast once for it, with the title "Erreur capture" and the text of the error,
  and ends Failed at once: the capture was called once, the analyzer was not called,
  and nothing was written to the clipboard. When winotify is available and every toast
  can be shown, the user is shown, after the toast "Analyse en cours", the stripped
  text of the error in ceil(len / 300) toasts of at most 300 characters: exactly one
  toast, titled "Erreur capture" and holding the whole text, when the text has 1 to
  300 characters and neither starts nor ends with white space, and none when the
  stripped text is empty. When winotify is not available the call writes one log line
  with the title and the first 256 characters of the text.
\<close>

theorem capture_failure_aborts:
  assumes "grab env = Some e"
  shows "capture_et_analyse env w =
           (Failed,
            emit (LogInfo (lit ''D'' @ [233] @ lit ''but capture_et_analyse'')
                  # notify_toast env (lit ''Gemini Scanner'')
                      (lit ''Analyse en cours (capture auto)...'')
                  @ [Grab, LogError (lit ''Erreur capture '' @ [233] @ lit ''cran: '' @ py_str e)]
                  @ notify_toast env (lit ''Erreur capture'') (py_str e)) w)
         \<and> grab_calls (new_events w (snd (capture_et_analyse env w))) = 1
         \<and> generate_calls (new_events w (snd (capture_et_analyse env w))) = []
         \<and> clipboard_writes (new_events w (snd (capture_et_analyse env w))) = []
         \<and> clipboard (snd (capture_et_analyse env w)) = clipboard w
         \<and> (USE_WINOTIFY env \<and> (\<forall>t m. toast_show env t m = None) \<longrightarrow>
              timeline (new_events w (snd (capture_et_analyse env w)))
                = Inl msg_in_progress # map Inl (toast_parts (py_str e)))
         \<and> concat (toast_parts (py_str e)) = py_strip (py_str e)
         \<and> length (toast_parts (py_str e)) = (length (py_strip (py_str e)) + 299) div 300
         \<and> (\<forall>p \<in> set (toast_parts (py_str e)). p \<noteq> [] \<and> length p \<le> 300)
         \<and> (USE_WINOTIFY env \<and> (\<forall>t m. toast_show env t m = None)
              \<and> py_str e \<noteq> [] \<and> length (py_str e) \<le> 300
              \<and> \<not> py_isspace (hd (py_str e)) \<and> \<not> py_isspace (last (py_str e)) \<longrightarrow>
              notify_toast env (lit ''Erreur capture'') (py_str e)
                = [ToastShow (lit ''Erreur capture'') (py_str e),
                   LogInfo (lit ''Notification affich'' @ [233] @ lit ''e: ''
                            @ lit ''Erreur capture'' @ lit '' (part 1)''),
                   ToastPause])
         \<and> (\<not> USE_WINOTIFY env \<longrightarrow>
              notify_toast env (lit ''Erreur capture'') (py_str e)
                = [LogInfo (lit ''[Notification] '' @ lit ''Erreur capture'' @ lit '': ''
                            @ take 256 (py_str e))])"
proof -
  have run: "capture_et_analyse env w =
           (Failed,
            emit (LogInfo (lit ''D'' @ [233] @ lit ''but capture_et_analyse'')
                  # notify_toast env (lit ''Gemini Scanner'')
                      (lit ''Analyse en cours (capture auto)...'')
                  @ [Grab, LogError (lit ''Erreur capture '' @ [233] @ lit ''cran: '' @ py_str e)]
                  @ notify_toast env (lit ''Erreur capture'') (py_str e)) w)"
    using assms by (rule run_capture_fails)
  have counts: "grab_calls (new_events w (snd (capture_et_analyse env w))) = 1
         \<and> generate_calls (new_events w (snd (capture_et_analyse env w))) = []
         \<and> clipboard_writes (new_events w (snd (capture_et_analyse env w))) = []
         \<and> clipboard (snd (capture_et_analyse env w)) = clipboard w"
    unfolding run by simp
  have shown: "timeline (new_events w (snd (capture_et_analyse env w)))
                = Inl msg_in_progress # map Inl (toast_parts (py_str e))"
    if on: "USE_WINOTIFY env" and ok: "\<And>t m. toast_show env t m = None"
    unfolding run using fixed_message_parts(1)
    by (simp add: timeline_notify [OF on ok] msg_in_progress_def)
  have one: "notify_toast env (lit ''Erreur capture'') (py_str e)
                = [ToastShow (lit ''Erreur capture'') (py_str e),
                   LogInfo (lit ''Notification affich'' @ [233] @ lit ''e: ''
                            @ lit ''Erreur capture'' @ lit '' (part 1)''),
                   ToastPause]"
    if on: "USE_WINOTIFY env" and ok: "\<And>t m. toast_show env t m = None"
      and etext: "py_str e \<noteq> []" "length (py_str e) \<le> 300"
        "\<not> py_isspace (hd (py_str e))" "\<not> py_isspace (last (py_str e))"
    using notify_single [OF on ok toast_parts_single [OF etext], of "lit ''Erreur capture''"]
    by simp
  have log: "notify_toast env (lit ''Erreur capture'') (py_str e)
                = [LogInfo (lit ''[Notification] '' @ lit ''Erreur capture'' @ lit '': ''
                            @ take 256 (py_str e))]"
    if "\<not> USE_WINOTIFY env"
    using that by (simp add: notify_fallback)
  from run counts shown one log toast_parts_facts [of "py_str e"] show ?thesis
    by blast
qed

theorem capture_failure_aborts_witness:
  "grab env_capture_fails = Some no_display
   \<and> fst (capture_et_analyse env_capture_fails world0) = Failed
   \<and> grab_calls (events (snd (capture_et_analyse env_capture_fails world0))) = 1
   \<and> generate_calls (events (snd (capture_et_analyse env_capture_fails world0))) = []
   \<and> clipboard_writes (events (snd (capture_et_analyse env_capture_fails world0))) = []
   \<and> timeline (events (snd (capture_et_analyse env_capture_fails world0)))
       = [Inl (lit ''Analyse en cours (capture auto)...''), Inl (lit ''screen grab failed'')]
   \<and> notify_toast env_capture_fails (lit ''Erreur capture'') (lit ''screen grab failed'')
       = [ToastShow (lit ''Erreur capture'') (lit ''screen grab failed''),
          LogInfo (lit ''Notification affich'' @ [233] @ lit ''e: ''
                   @ lit ''Erreur capture'' @ lit '' (part 1)''),
          ToastPause]"
proof -
  have direct: "notify_toast env_capture_fails (lit ''Erreur capture'') (lit ''screen grab failed'')
       = [ToastShow (lit ''Erreur capture'') (lit ''screen grab failed''),
          LogInfo (lit ''Notification affich'' @ [233] @ lit ''e: ''
                   @ lit ''Erreur capture'' @ lit '' (part 1)''),
          ToastPause]"
    by (simp add: notify_toast_def toast_parts_def py_strip_def py_isspace_def lit_def
          split_parts.simps max_len_def str_nat.simps
          env_capture_fails_def env_paris_def)
  have hyp: "grab env_capture_fails = Some no_display"
    by (simp add: env_capture_fails_def)
  have notifier: "USE_WINOTIFY env_capture_fails" "\<forall>t m. toast_show env_capture_fails t m = None"
    by (simp_all add: env_capture_fails_def env_paris_def)
  have etext: "py_str no_display = lit ''screen grab failed''"
    "py_str no_display \<noteq> []" "length (py_str no_display) \<le> 300"
    "\<not> py_isspace (hd (py_str no_display))" "\<not> py_isspace (last (py_str no_display))"
    by (simp_all add: no_display_def lit_def py_isspace_def)
  have parts: "toast_parts (lit ''screen grab failed'') = [lit ''screen grab failed'']"
    using toast_parts_single [OF etext(2-5)] etext(1) by simp
  note inst = capture_failure_aborts [of env_capture_fails no_display world0, OF hyp]
  from inst have "fst (capture_et_analyse env_capture_fails world0) = Failed"
    and "grab_calls (new_events world0 (snd (capture_et_analyse env_capture_fails world0))) = 1"
    and "generate_calls (new_events world0 (snd (capture_et_analyse env_capture_fails world0)))
           = []"
    and "clipboard_writes (new_events world0 (snd (capture_et_analyse env_capture_fails world0)))
           = []"
    by simp_all
  moreover from inst notifier
  have "timeline (new_events world0 (snd (capture_et_analyse env_capture_fails world0)))
          = Inl msg_in_progress # map Inl (toast_parts (py_str no_display))"
    by blast
  moreover from inst notifier etext(2-5)
  have "notify_toast env_capture_fails (lit ''Erreur capture'') (py_str no_display)
                = [ToastShow (lit ''Erreur capture'') (py_str no_display),
                   LogInfo (lit ''Notification affich'' @ [233] @ lit ''e: ''
                            @ lit ''Erreur capture'' @ lit '' (part 1)''),
                   ToastPause]"
    by blast
  ultimately show ?thesis
    using hyp direct unfolding new_events_world0 etext(1)
    by (simp add: msg_in_progress_def parts)
qed

subsection \<open>Which errors are retried\<close>

text \<open>
  C9. The test of line 127 holds exactly when \<open>str(e)\<close> contains "503" or
  "UNAVAILABLE" as a contiguous block. An attempt whose analyzer call raises \<open>e\<close> goes
  on to the next attempt, after the retry notification and the sleep, when the test
  holds, and notifies the error and returns when it does not; nothing of \<open>e\<close> but
  \<open>str(e)\<close> is looked at.
\<close>

theorem retryable_iff_substring:
  "(retryable err_msg \<longleftrightarrow>
      sublist (lit ''503'') err_msg \<or> sublist (lit ''UNAVAILABLE'') err_msg)
   \<and> (generate_content env attempt = Inl e \<longrightarrow>
        analyse_loop env (attempt # rest) delay answer w =
          (if sublist (lit ''503'') (py_str e) \<or> sublist (lit ''UNAVAILABLE'') (py_str e)
           then analyse_loop env rest (delay * 2) answer
                  (emit (retry_events env attempt e delay) w)
           else Returned
                  (emit ([Generate attempt,
                          LogWarning (lit ''Erreur Gemini (tentative '' @ str_nat attempt
                                      @ lit ''): '' @ py_str e)]
                         @ notify_toast env (lit ''Erreur Gemini'') (py_str e)) w)))"
  using loop_step_error [of env attempt e rest delay answer w]
  by (simp add: retryable_def py_in_sublist del: analyse_loop.simps)

theorem retryable_iff_substring_witness:
  "retryable (lit ''503 UNAVAILABLE'') \<and> \<not> retryable (lit ''invalid API key'')
   \<and> \<not> retryable (lit ''service unavailable'')
   \<and> generate_content env_always_busy 3 = Inl busy
   \<and> analyse_loop env_always_busy [3] 8 None world0
       = Fell None (emit (retry_events env_always_busy 3 busy 8) world0)
   \<and> generate_content env_bad_key 1 = Inl bad_key
   \<and> analyse_loop env_bad_key [1, 2, 3] 2 None world0
       = Returned
           (emit ([Generate 1,
                   LogWarning (lit ''Erreur Gemini (tentative '' @ str_nat 1 @ lit ''): ''
                               @ py_str bad_key)]
                  @ notify_toast env_bad_key (lit ''Erreur Gemini'') (py_str bad_key)) world0)"
proof -
  have r: "retryable (lit ''503 UNAVAILABLE'')" "\<not> retryable (lit ''invalid API key'')"
    "\<not> retryable (lit ''service unavailable'')"
    by (simp_all add: retryable_def lit_def)
  have g: "generate_content env_always_busy 3 = Inl busy"
    "generate_content env_bad_key 1 = Inl bad_key"
    by (simp_all add: env_always_busy_def env_bad_key_def env_paris_def)
  have s: "py_str busy = lit ''503 UNAVAILABLE''" "py_str bad_key = lit ''invalid API key''"
    by (simp_all add: busy_def bad_key_def)
  from retryable_iff_substring [of "lit ''503 UNAVAILABLE''" env_always_busy 3 busy "[]" 8 None world0]
    retryable_iff_substring [of "lit ''invalid API key''" env_bad_key 1 bad_key "[2, 3]" 2 None world0]
    r g s
  show ?thesis
    by (simp del: analyse_loop.simps(2) One_nat_def)
qed

subsection \<open>Blank answer\<close>



end
